theory Spec2Isabelle
  imports Main "HOL-Library.Sublist"
begin

section \<open>Strings and numbers as the JavaScript runtime handles them\<close>

text \<open>
  A JavaScript string is modelled as a \<^typ>\<open>string\<close>: one \<^typ>\<open>char\<close> per UTF-16 code
  unit, for texts whose code units are below 256. The character classes of the regular
  expressions (\<^verbatim>\<open>\d\<close>, \<^verbatim>\<open>\w\<close>, \<^verbatim>\<open>\s\<close>) and \<^verbatim>\<open>toLowerCase\<close> are written out on
  that range.
\<close>

definition code_unit :: "char \<Rightarrow> nat" where
  "code_unit c = of_char c"

definition is_digit :: "char \<Rightarrow> bool" where
  "is_digit c = (48 \<le> code_unit c \<and> code_unit c \<le> 57)"

definition is_word_char :: "char \<Rightarrow> bool" where
  "is_word_char c =
     (let n = code_unit c
      in (48 \<le> n \<and> n \<le> 57) \<or> (65 \<le> n \<and> n \<le> 90) \<or> n = 95 \<or> (97 \<le> n \<and> n \<le> 122))"

definition is_space :: "char \<Rightarrow> bool" where
  "is_space c = (let n = code_unit c in (9 \<le> n \<and> n \<le> 13) \<or> n = 32 \<or> n = 160)"

definition is_colon_space :: "char \<Rightarrow> bool" where
  "is_colon_space c = (c = CHR '':'' \<or> is_space c)"

definition ascii_lower :: "char \<Rightarrow> char" where
  "ascii_lower c = (let n = code_unit c in if 65 \<le> n \<and> n \<le> 90 then char_of (n + 32) else c)"

definition lower_char :: "char \<Rightarrow> char" where
  "lower_char c =
     (let n = code_unit c
      in if (65 \<le> n \<and> n \<le> 90) \<or> (192 \<le> n \<and> n \<le> 214) \<or> (216 \<le> n \<and> n \<le> 222)
         then char_of (n + 32) else c)"

definition toLowerCase :: "string \<Rightarrow> string" where
  "toLowerCase s = map lower_char s"

text \<open>\<^verbatim>\<open>s.includes(sub)\<close>: \<^verbatim>\<open>sub\<close> occurs in \<^verbatim>\<open>s\<close> as a contiguous run.\<close>

fun includes_str :: "string \<Rightarrow> string \<Rightarrow> bool" where
  "includes_str [] sub = (sub = [])"
| "includes_str (c # cs) sub = (take (length sub) (c # cs) = sub \<or> includes_str cs sub)"

text \<open>\<^verbatim>\<open>x || d\<close> on an optional string: \<^verbatim>\<open>undefined\<close>, \<^verbatim>\<open>null\<close> and \<^verbatim>\<open>""\<close> are falsy.\<close>

definition or_else :: "string option \<Rightarrow> string \<Rightarrow> string" where
  "or_else x d = (case x of None \<Rightarrow> d | Some s \<Rightarrow> if s = [] then d else s)"

text \<open>\<^verbatim>\<open>args.limit || d\<close> on an optional integer: \<^verbatim>\<open>undefined\<close> and \<^verbatim>\<open>0\<close> are falsy.\<close>

definition number_or :: "int option \<Rightarrow> int \<Rightarrow> int" where
  "number_or x d = (case x of None \<Rightarrow> d | Some n \<Rightarrow> if n = 0 then d else n)"

text \<open>\<^verbatim>\<open>xs.slice(0, e)\<close>: a negative end counts from the end of the array.\<close>

definition slice0 :: "'a list \<Rightarrow> int \<Rightarrow> 'a list" where
  "slice0 xs e = (if e < 0 then take (nat (int (length xs) + e)) xs else take (nat e) xs)"

text \<open>
  Decimal rendering of an integer, as a template literal does for a number of absolute
  value below 1e21. From 1e21 on JavaScript prints the exponent form, which the model
  does not cover: identifiers are modelled for clock readings and \<^verbatim>\<open>modified\<close> values
  below that bound.
\<close>

definition digit_char :: "int \<Rightarrow> char" where
  "digit_char d = char_of (48 + d)"

function show_digits :: "int \<Rightarrow> string" where
  "show_digits n =
     (if n < 10 then [digit_char n] else show_digits (n div 10) @ [digit_char (n mod 10)])"
  by pat_completeness auto
termination
  by (relation "measure nat") auto

declare show_digits.simps [simp del]

definition show_int :: "int \<Rightarrow> string" where
  "show_int i = (if i < 0 then CHR ''-'' # show_digits (- i) else show_digits i)"

definition pad :: "nat \<Rightarrow> int \<Rightarrow> string" where
  "pad w n = replicate (w - length (show_digits n)) CHR ''0'' @ show_digits n"

subsection \<open>Dates\<close>

text \<open>
  A \<^verbatim>\<open>Date\<close> is its time value: milliseconds since the Unix epoch, an integer.
  \<^verbatim>\<open>toISOString\<close> raises a \<^verbatim>\<open>RangeError\<close> on a time value outside
  \<open>\<plusminus>8.64e15\<close>; inside, it prints the proleptic Gregorian calendar date in UTC, with
  a four-digit year from 0 to 9999 and a signed six-digit year otherwise.
\<close>

datatype js_error = TypeError | RangeError

definition valid_time :: "int \<Rightarrow> bool" where
  "valid_time t = (- 8640000000000000 \<le> t \<and> t \<le> 8640000000000000)"

definition civil_from_days :: "int \<Rightarrow> int \<times> int \<times> int" where
  "civil_from_days z0 =
     (let z = z0 + 719468;
          era = z div 146097;
          doe = z - era * 146097;
          yoe = (doe - doe div 1460 + doe div 36524 - doe div 146096) div 365;
          doy = doe - (365 * yoe + yoe div 4 - yoe div 100);
          mp = (5 * doy + 2) div 153;
          d = doy - (153 * mp + 2) div 5 + 1;
          m = (if mp < 10 then mp + 3 else mp - 9);
          y = yoe + era * 400 + (if m \<le> 2 then 1 else 0)
      in (y, m, d))"

definition year_string :: "int \<Rightarrow> string" where
  "year_string y =
     (if 0 \<le> y \<and> y \<le> 9999 then pad 4 y
      else if y < 0 then CHR ''-'' # pad 6 (- y)
      else CHR ''+'' # pad 6 y)"

definition Date_toISOString :: "int \<Rightarrow> string" where
  "Date_toISOString t =
     (let ms = t mod 86400000;
          (y, m, d) = civil_from_days (t div 86400000)
      in year_string y @ ''-'' @ pad 2 m @ ''-'' @ pad 2 d @ ''T''
         @ pad 2 (ms div 3600000) @ '':'' @ pad 2 (ms div 60000 mod 60) @ '':''
         @ pad 2 (ms div 1000 mod 60) @ ''.'' @ pad 3 (ms mod 1000) @ ''Z'')"

section \<open>Code extraction (\<^verbatim>\<open>extractVerificationCode\<close>)\<close>

text \<open>
  \<^verbatim>\<open>text.match(pattern)\<close> tries the pattern at every start position from left to
  right and returns the leftmost match. A pattern is modelled by its matcher at one
  position, which gets the character before the position (\<open>None\<close> at the start of
  the text, as \<^verbatim>\<open>\b\<close> needs it) and the rest of the text, and returns capture
  group 1.
\<close>

fun search :: "(char option \<Rightarrow> string \<Rightarrow> string option) \<Rightarrow> char option \<Rightarrow> string \<Rightarrow> string option" where
  "search m prev [] = m prev []"
| "search m prev (c # cs) =
     (case m prev (c # cs) of Some g \<Rightarrow> Some g | None \<Rightarrow> search m (Some c) cs)"

text \<open>
  \<^verbatim>\<open>/\b(\d{n})\b/\<close> at one position: the \<open>n\<close> characters are digits, hence word
  characters, so the first \<^verbatim>\<open>\b\<close> holds when no word character stands before them and
  the second when none follows.
\<close>

definition digit_run :: "nat \<Rightarrow> char option \<Rightarrow> string \<Rightarrow> string option" where
  "digit_run n prev s =
     (if (case prev of None \<Rightarrow> True | Some p \<Rightarrow> \<not> is_word_char p)
         \<and> n \<le> length s \<and> list_all is_digit (take n s)
         \<and> (case drop n s of [] \<Rightarrow> True | c # _ \<Rightarrow> \<not> is_word_char c)
      then Some (take n s) else None)"

text \<open>\<^verbatim>\<open>(\d{4,8})\<close> is greedy: it takes the leading digits, eight at most.\<close>

definition digits_4_8 :: "string \<Rightarrow> string" where
  "digits_4_8 s = take 8 (takeWhile is_digit s)"

text \<open>
  A literal under the \<^verbatim>\<open>i\<close> flag: the rest of the text after it, when the text
  starts with the literal in either case. The literal is given in lower case.
\<close>

fun literal_i :: "string \<Rightarrow> string \<Rightarrow> string option" where
  "literal_i [] s = Some s"
| "literal_i (p # ps) [] = None"
| "literal_i (p # ps) (c # cs) = (if ascii_lower c = p then literal_i ps cs else None)"

text \<open>
  \<^verbatim>\<open>/code[:\s]+(\d{4,8})/i\<close> and \<^verbatim>\<open>/verify[:\s]+(\d{4,8})/i\<close> at one position. No
  digit is a separator, so backtracking into \<^verbatim>\<open>[:\s]+\<close> finds nothing new.
\<close>

definition keyword_digits :: "string \<Rightarrow> char option \<Rightarrow> string \<Rightarrow> string option" where
  "keyword_digits kw prev s =
     (case literal_i kw s of
        None \<Rightarrow> None
      | Some r \<Rightarrow>
          (let ds = digits_4_8 (dropWhile is_colon_space r)
           in if takeWhile is_colon_space r \<noteq> [] \<and> 4 \<le> length ds then Some ds else None))"

text \<open>
  \<^verbatim>\<open>/(\d{4,8})\s+is your/i\<close> at one position. With fewer digits than the greedy run
  the next character is a digit, not white space, so backtracking finds nothing new.
\<close>

definition digits_is_your :: "char option \<Rightarrow> string \<Rightarrow> string option" where
  "digits_is_your prev s =
     (let ds = digits_4_8 s; r = drop (length ds) s
      in if 4 \<le> length ds \<and> takeWhile is_space r \<noteq> []
            \<and> literal_i ''is your'' (dropWhile is_space r) \<noteq> None
         then Some ds else None)"

definition pattern_6_digits :: "string \<Rightarrow> string option" where
  "pattern_6_digits = search (digit_run 6) None"

definition pattern_4_digits :: "string \<Rightarrow> string option" where
  "pattern_4_digits = search (digit_run 4) None"

definition pattern_8_digits :: "string \<Rightarrow> string option" where
  "pattern_8_digits = search (digit_run 8) None"

definition pattern_code :: "string \<Rightarrow> string option" where
  "pattern_code = search (keyword_digits ''code'') None"

definition pattern_is_your :: "string \<Rightarrow> string option" where
  "pattern_is_your = search digits_is_your None"

definition pattern_verify :: "string \<Rightarrow> string option" where
  "pattern_verify = search (keyword_digits ''verify'') None"

definition patterns :: "(string \<Rightarrow> string option) list" where
  "patterns = [pattern_6_digits, pattern_4_digits, pattern_8_digits,
               pattern_code, pattern_is_your, pattern_verify]"

text \<open>The loop \<^verbatim>\<open>for (const pattern of patterns)\<close>: the first match returns.\<close>

fun first_match :: "(string \<Rightarrow> string option) list \<Rightarrow> string \<Rightarrow> string option" where
  "first_match [] txt = None"
| "first_match (p # ps) txt = (case p txt of Some g \<Rightarrow> Some g | None \<Rightarrow> first_match ps txt)"

definition extractVerificationCode :: "string \<Rightarrow> string option" where
  "extractVerificationCode txt = first_match patterns txt"

section \<open>The message store\<close>

text \<open>
  The module-level array \<^verbatim>\<open>smsMessages\<close> is a list of messages, index 0 first; every
  operation takes the list and returns the updated one. The fields \<^verbatim>\<open>threadId\<close> and
  \<^verbatim>\<open>app\<close> are set by some channels only.
\<close>

record sms =
  sms_id :: string
  sender :: string
  body :: string
  timestamp :: string
  threadId :: "string option"
  app :: "string option"

definition MAX_STORED_MESSAGES :: nat where
  "MAX_STORED_MESSAGES = 100"

text \<open>\<^verbatim>\<open>while (smsMessages.length > MAX_STORED_MESSAGES) smsMessages.pop()\<close>\<close>

function keep_max :: "sms list \<Rightarrow> sms list" where
  "keep_max store =
     (if length store > MAX_STORED_MESSAGES then keep_max (butlast store) else store)"
  by pat_completeness auto
termination
  by (relation "measure length") auto

declare keep_max.simps [simp del]

text \<open>\<^verbatim>\<open>addSmsMessage\<close>: \<^verbatim>\<open>unshift\<close>, then the eviction loop. It checks no identifier.\<close>

definition addSmsMessage :: "sms \<Rightarrow> sms list \<Rightarrow> sms list" where
  "addSmsMessage s store = keep_max (s # store)"

text \<open>\<^verbatim>\<open>smsMessages.find(s => s.id === i)\<close> as a truth value.\<close>

definition has_id :: "string \<Rightarrow> sms list \<Rightarrow> bool" where
  "has_id i store = (find (\<lambda>s. sms_id s = i) store \<noteq> None)"

section \<open>The stream channel (\<^verbatim>\<open>handlePushbulletMessage\<close>)\<close>

record notif =
  thread_id :: string
  title :: "string option"
  notif_body :: "string option"

record push =
  push_type :: string
  notifications :: "notif list option"
  modified :: int
  package_name :: "string option"
  push_title :: "string option"
  push_body :: "string option"
  application_name :: "string option"

record ws_msg =
  msg_type :: string
  msg_subtype :: "string option"
  msg_push :: "push option"

text \<open>
  The handler reads the local clock twice for every message it builds: \<^verbatim>\<open>Date.now()\<close>
  for the identifier and \<^verbatim>\<open>new Date()\<close> for the timestamp. The clock is the
  environment's: \<open>clock k\<close> is the \<open>k\<close>-th reading of one run of the handler.
\<close>

definition stream_sms :: "(nat \<Rightarrow> int) \<Rightarrow> nat \<Rightarrow> notif \<Rightarrow> sms" where
  "stream_sms clock k n =
     \<lparr>sms_id = thread_id n @ ''_'' @ show_int (clock k),
      sender = or_else (title n) ''Unknown'',
      body = or_else (notif_body n) [],
      timestamp = Date_toISOString (clock (k + 1)),
      threadId = Some (thread_id n),
      app = None\<rparr>"

fun sms_changed_loop :: "(nat \<Rightarrow> int) \<Rightarrow> nat \<Rightarrow> notif list \<Rightarrow> sms list \<Rightarrow> sms list" where
  "sms_changed_loop clock k [] store = store"
| "sms_changed_loop clock k (n # ns) store =
     sms_changed_loop clock (k + 2) ns (addSmsMessage (stream_sms clock k n) store)"

definition mirror_sms :: "(nat \<Rightarrow> int) \<Rightarrow> nat \<Rightarrow> push \<Rightarrow> sms" where
  "mirror_sms clock k p =
     \<lparr>sms_id = ''mirror_'' @ show_int (clock k),
      sender = or_else (push_title p) ''Unknown'',
      body = or_else (push_body p) [],
      timestamp = Date_toISOString (clock (k + 1)),
      threadId = None,
      app = application_name p\<rparr>"

text \<open>
  The result is the store and whether the handler started \<^verbatim>\<open>fetchRecentPushes\<close> (a
  tickle): that call is asynchronous, and its effect on the store is the separate step
  \<open>fetchRecentPushes\<close> below, taken when the response arrives.
\<close>

definition handlePushbulletMessage :: "(nat \<Rightarrow> int) \<Rightarrow> ws_msg \<Rightarrow> sms list \<Rightarrow> sms list \<times> bool" where
  "handlePushbulletMessage clock msg store =
     (if msg_type msg = ''tickle'' \<and> msg_subtype msg = Some ''push'' then (store, True)
      else if msg_type msg = ''push'' then
        (case msg_push msg of
           None \<Rightarrow> (store, False)
         | Some p \<Rightarrow>
             (let changed = (push_type p = ''sms_changed'' \<and> notifications p \<noteq> None);
                  ns = (case notifications p of None \<Rightarrow> [] | Some l \<Rightarrow> l);
                  store1 = (if changed then sms_changed_loop clock 0 ns store else store);
                  k = (if changed then 2 * length ns else 0);
                  store2 = (if push_type p = ''mirror'' \<and> package_name p = Some ''com.android.mms''
                            then addSmsMessage (mirror_sms clock k p) store1 else store1)
              in (store2, False)))
      else (store, False))"

section \<open>The poll channel (\<^verbatim>\<open>fetchRecentPushes\<close>)\<close>

definition poll_sms :: "int \<Rightarrow> notif \<Rightarrow> sms" where
  "poll_sms modif n =
     \<lparr>sms_id = thread_id n @ ''_'' @ show_int modif,
      sender = or_else (title n) ''Unknown'',
      body = or_else (notif_body n) [],
      timestamp = Date_toISOString (modif * 1000),
      threadId = Some (thread_id n),
      app = None\<rparr>"

text \<open>
  The two loops run inside one \<^verbatim>\<open>try\<close>: a \<^verbatim>\<open>RangeError\<close> of \<^verbatim>\<open>toISOString\<close>
  ends both, and the store keeps what was inserted before. The second component of the
  result is \<open>False\<close> when the loop was left by the exception.
\<close>

fun poll_notifications :: "int \<Rightarrow> notif list \<Rightarrow> sms list \<Rightarrow> sms list \<times> bool" where
  "poll_notifications modif [] store = (store, True)"
| "poll_notifications modif (n # ns) store =
     (if has_id (thread_id n @ ''_'' @ show_int modif) store then poll_notifications modif ns store
      else if valid_time (modif * 1000)
           then poll_notifications modif ns (addSmsMessage (poll_sms modif n) store)
           else (store, False))"

fun poll_pushes :: "push list \<Rightarrow> sms list \<Rightarrow> sms list \<times> bool" where
  "poll_pushes [] store = (store, True)"
| "poll_pushes (p # ps) store =
     (if push_type p = ''sms_changed'' \<and> notifications p \<noteq> None then
        (case poll_notifications (modified p) (case notifications p of None \<Rightarrow> [] | Some l \<Rightarrow> l) store of
           (store', ok) \<Rightarrow> if ok then poll_pushes ps store' else (store', False))
      else poll_pushes ps store)"

text \<open>
  The response is \<open>None\<close> when the request failed or was answered with an error
  status, and \<open>Some pushes\<close> with \<^verbatim>\<open>data.pushes || []\<close> otherwise.
\<close>

definition fetchRecentPushes :: "push list option \<Rightarrow> sms list \<Rightarrow> sms list" where
  "fetchRecentPushes response store =
     (case response of None \<Rightarrow> store | Some pushes \<Rightarrow> fst (poll_pushes pushes store))"

section \<open>The thread snapshot (\<^verbatim>\<open>fetchSmsFromApi\<close>, \<^verbatim>\<open>fetch_sms_threads\<close>)\<close>

record recipient =
  recipient_name :: "string option"
  recipient_number :: "string option"

record thread_latest =
  latest_body :: "string option"
  latest_timestamp :: int

record thread =
  thread_ident :: string
  recipients :: "recipient list option"
  latest :: "thread_latest option"

definition thread_sender :: "thread \<Rightarrow> string" where
  "thread_sender t =
     (case recipients t of
        Some (r # _) \<Rightarrow> or_else (recipient_name r) (or_else (recipient_number r) ''Unknown'')
      | _ \<Rightarrow> ''Unknown'')"

definition thread_sms :: "thread \<Rightarrow> thread_latest \<Rightarrow> sms" where
  "thread_sms t l =
     \<lparr>sms_id = thread_ident t,
      sender = thread_sender t,
      body = or_else (latest_body l) [],
      timestamp = Date_toISOString (latest_timestamp l * 1000),
      threadId = Some (thread_ident t),
      app = None\<rparr>"

text \<open>The loop over the threads; \<open>None\<close> when \<^verbatim>\<open>toISOString\<close> raised.\<close>

fun thread_messages :: "thread list \<Rightarrow> sms list option" where
  "thread_messages [] = Some []"
| "thread_messages (t # ts) =
     (case latest t of
        None \<Rightarrow> thread_messages ts
      | Some l \<Rightarrow>
          if valid_time (latest_timestamp l * 1000)
          then map_option (\<lambda>ms. thread_sms t l # ms) (thread_messages ts)
          else None)"

text \<open>
  The response is \<open>None\<close> when no device was found, a request failed or was answered
  with an error status, and \<open>Some threads\<close> with \<^verbatim>\<open>data.threads || []\<close> otherwise.
  Every failure, the \<^verbatim>\<open>RangeError\<close> included, returns the empty list.
\<close>

definition fetchSmsFromApi :: "thread list option \<Rightarrow> int \<Rightarrow> sms list" where
  "fetchSmsFromApi response limit =
     (case response of
        None \<Rightarrow> []
      | Some threads \<Rightarrow>
          (case thread_messages (slice0 threads limit) of None \<Rightarrow> [] | Some ms \<Rightarrow> ms))"

text \<open>The merge loop of the \<^verbatim>\<open>fetch_sms_threads\<close> tool: \<^verbatim>\<open>push\<close> appends.\<close>

fun merge_messages :: "sms list \<Rightarrow> sms list \<Rightarrow> sms list" where
  "merge_messages [] store = store"
| "merge_messages (m # ms) store =
     merge_messages ms (if has_id (sms_id m) store then store else store @ [m])"

definition fetch_sms_threads :: "int option \<Rightarrow> thread list option \<Rightarrow> sms list \<Rightarrow> sms list" where
  "fetch_sms_threads limit_arg response store =
     (let messages = fetchSmsFromApi response (number_or limit_arg 20)
      in if messages = [] then store else merge_messages messages store)"

section \<open>Listing (\<^verbatim>\<open>get_recent_sms\<close>)\<close>

text \<open>
  The entries the tool reports, in the order it reports them (the array \<^verbatim>\<open>messages\<close>
  before it is formatted as text).
\<close>

definition sender_includes :: "string \<Rightarrow> sms \<Rightarrow> bool" where
  "sender_includes q s = includes_str (toLowerCase (sender s)) (toLowerCase q)"

definition get_recent_sms :: "int option \<Rightarrow> string option \<Rightarrow> sms list \<Rightarrow> sms list" where
  "get_recent_sms limit_arg sender_arg store =
     (let messages = slice0 store (number_or limit_arg 10)
      in case sender_arg of
           None \<Rightarrow> messages
         | Some q \<Rightarrow> if q = [] then messages else filter (sender_includes q) messages)"

section \<open>Waiting (\<^verbatim>\<open>waitForSms\<close>, \<^verbatim>\<open>matchesFilter\<close>)\<close>

record sms_filter =
  filter_sender :: "string option"
  filter_contains :: "string option"
  filter_hasCode :: bool

definition matchesFilter :: "sms \<Rightarrow> sms_filter \<Rightarrow> bool" where
  "matchesFilter s f =
     (if (case filter_sender f of
            None \<Rightarrow> False
          | Some q \<Rightarrow> q \<noteq> [] \<and> \<not> includes_str (toLowerCase (sender s)) (toLowerCase q))
      then False
      else if (case filter_contains f of
                 None \<Rightarrow> False
               | Some q \<Rightarrow> q \<noteq> [] \<and> \<not> includes_str (toLowerCase (body s)) (toLowerCase q))
      then False
      else if filter_hasCode f \<and> extractVerificationCode (body s) = None then False
      else True)"

text \<open>\<^verbatim>\<open>!filter || matchesFilter(sms, filter)\<close>; the filter \<^verbatim>\<open>null\<close> is \<open>None\<close>.\<close>

definition accepts :: "sms_filter option \<Rightarrow> sms \<Rightarrow> bool" where
  "accepts filt s = (case filt of None \<Rightarrow> True | Some f \<Rightarrow> matchesFilter s f)"

text \<open>
  \<^verbatim>\<open>new Date(sms.timestamp).getTime()\<close> is the runtime's date parser, a parameter
  \<open>getTime\<close> of the model: \<open>None\<close> is \<^verbatim>\<open>NaN\<close>, which compares false.
\<close>

definition is_new :: "(string \<Rightarrow> int option) \<Rightarrow> int \<Rightarrow> sms \<Rightarrow> bool" where
  "is_new getTime startTime s =
     (case getTime (timestamp s) of None \<Rightarrow> False | Some msgTime \<Rightarrow> msgTime > startTime - 60000)"

text \<open>
  The inner loop \<^verbatim>\<open>for (let i = 0; i < smsMessages.length - startMessageCount + 5; i++)\<close>
  over its indices. At an index beyond the array \<^verbatim>\<open>smsMessages[i]\<close> is
  \<^verbatim>\<open>undefined\<close>, and the first property read on it raises a \<^verbatim>\<open>TypeError\<close> whatever
  the filter is: \<^verbatim>\<open>sms.sender\<close> or \<^verbatim>\<open>sms.body\<close> in \<^verbatim>\<open>matchesFilter\<close>, and
  \<^verbatim>\<open>sms.timestamp\<close> when there is no filter or the filter has no truthy field.
\<close>

fun scan_indices :: "(string \<Rightarrow> int option) \<Rightarrow> sms_filter option \<Rightarrow> int \<Rightarrow> sms list \<Rightarrow> nat list \<Rightarrow> js_error + sms option" where
  "scan_indices getTime filt startTime store [] = Inr None"
| "scan_indices getTime filt startTime store (i # js) =
     (if i < length store then
        (if accepts filt (store ! i) \<and> is_new getTime startTime (store ! i)
         then Inr (Some (store ! i))
         else scan_indices getTime filt startTime store js)
      else Inl TypeError)"

definition scan_new :: "(string \<Rightarrow> int option) \<Rightarrow> sms_filter option \<Rightarrow> int \<Rightarrow> nat \<Rightarrow> sms list \<Rightarrow> js_error + sms option" where
  "scan_new getTime filt startTime startMessageCount store =
     scan_indices getTime filt startTime store
       [0 ..< nat (int (length store) - int startMessageCount + 5)]"

text \<open>
  The polling loop \<^verbatim>\<open>while (Date.now() - startTime < timeoutMs)\<close>. The environment is
  a list of ticks, one for every evaluation of the loop condition: the clock the
  condition reads, and the store as the body finds it after its one-second sleep. The
  result \<open>None\<close> says that the list ends while the wait is still suspended;
  \<open>Some (Inr None)\<close> is the return value \<^verbatim>\<open>null\<close>, \<open>Some (Inl e)\<close> a rejected promise.
\<close>

fun wait_loop :: "(string \<Rightarrow> int option) \<Rightarrow> sms_filter option \<Rightarrow> int \<Rightarrow> int \<Rightarrow> nat \<Rightarrow> (int \<times> sms list) list \<Rightarrow> (js_error + sms option) option" where
  "wait_loop getTime filt startTime timeoutMs startMessageCount [] = None"
| "wait_loop getTime filt startTime timeoutMs startMessageCount ((now, store) # ticks) =
     (if now - startTime < timeoutMs then
        (case scan_new getTime filt startTime startMessageCount store of
           Inl e \<Rightarrow> Some (Inl e)
         | Inr (Some s) \<Rightarrow> Some (Inr (Some s))
         | Inr None \<Rightarrow> wait_loop getTime filt startTime timeoutMs startMessageCount ticks)
      else Some (Inr None))"

text \<open>\<open>startTime\<close> is the clock \<^verbatim>\<open>waitForSms\<close> reads first, \<open>store\<close> the store then.\<close>

definition waitForSms :: "(string \<Rightarrow> int option) \<Rightarrow> sms_filter option \<Rightarrow> int \<Rightarrow> int \<Rightarrow> sms list \<Rightarrow> (int \<times> sms list) list \<Rightarrow> (js_error + sms option) option" where
  "waitForSms getTime filt timeoutMs startTime store ticks =
     (case find (accepts filt) store of
        Some s \<Rightarrow> Some (Inr (Some s))
      | None \<Rightarrow> wait_loop getTime filt startTime timeoutMs (length store) ticks)"

text \<open>
  An instance of \<open>getTime\<close> for the examples: it reads the 24-character form that
  \<open>Date_toISOString\<close> prints for the years 0 to 9999 and takes every other string as
  an invalid date. The runtime reads more forms, the signed six-digit years among them;
  the examples use timestamps of the year 2023 only, and the properties of
  \<open>waitForSms\<close> are stated for every \<open>getTime\<close>.
\<close>

definition read_digits :: "string \<Rightarrow> int option" where
  "read_digits s =
     (if list_all is_digit s then Some (foldl (\<lambda>a c. 10 * a + (int (code_unit c) - 48)) 0 s)
      else None)"

definition days_from_civil :: "int \<Rightarrow> int \<Rightarrow> int \<Rightarrow> int" where
  "days_from_civil y0 m d =
     (let y = (if m \<le> 2 then y0 - 1 else y0);
          era = y div 400;
          yoe = y - era * 400;
          doy = (153 * (if m > 2 then m - 3 else m + 9) + 2) div 5 + d - 1;
          doe = yoe * 365 + yoe div 4 - yoe div 100 + doy
      in era * 146097 + doe - 719468)"

definition Date_parse_iso :: "string \<Rightarrow> int option" where
  "Date_parse_iso s =
     (if length s = 24 \<and> s ! 4 = CHR ''-'' \<and> s ! 7 = CHR ''-'' \<and> s ! 10 = CHR ''T''
         \<and> s ! 13 = CHR '':'' \<and> s ! 16 = CHR '':'' \<and> s ! 19 = CHR ''.'' \<and> s ! 23 = CHR ''Z''
      then
        Option.bind (read_digits (take 4 s)) (\<lambda>y.
        Option.bind (read_digits (take 2 (drop 5 s))) (\<lambda>m.
        Option.bind (read_digits (take 2 (drop 8 s))) (\<lambda>d.
        Option.bind (read_digits (take 2 (drop 11 s))) (\<lambda>h.
        Option.bind (read_digits (take 2 (drop 14 s))) (\<lambda>mi.
        Option.bind (read_digits (take 2 (drop 17 s))) (\<lambda>sec.
        Option.bind (read_digits (take 3 (drop 20 s))) (\<lambda>ms.
          if 1 \<le> m \<and> m \<le> 12 \<and> 1 \<le> d \<and> d \<le> 31 \<and> h < 24 \<and> mi < 60 \<and> sec < 60
          then Some (days_from_civil y m d * 86400000 + h * 3600000 + mi * 60000 + sec * 1000 + ms)
          else None)))))))
      else None)"

section \<open>Runs of the server\<close>

text \<open>
  The store changes by three kinds of step: a frame of the stream, the response to a
  poll, and a call of the \<^verbatim>\<open>fetch_sms_threads\<close> tool. A run starts from the empty store.
\<close>

datatype event =
    StreamFrame "nat \<Rightarrow> int" ws_msg
  | PollResponse "push list option"
  | FetchThreads "int option" "thread list option"

fun step :: "sms list \<Rightarrow> event \<Rightarrow> sms list" where
  "step store (StreamFrame clock msg) = fst (handlePushbulletMessage clock msg store)"
| "step store (PollResponse response) = fetchRecentPushes response store"
| "step store (FetchThreads limit_arg response) = fetch_sms_threads limit_arg response store"

definition run :: "event list \<Rightarrow> sms list" where
  "run events = foldl step [] events"

section \<open>Example inputs\<close>

definition bank_notification :: "string \<Rightarrow> notif" where
  "bank_notification b = \<lparr>thread_id = ''7'', title = Some ''Bank'', notif_body = Some b\<rparr>"

definition sms_changed_push :: "notif list \<Rightarrow> push" where
  "sms_changed_push ns =
     \<lparr>push_type = ''sms_changed'', notifications = Some ns, modified = 1700000000,
      package_name = None, push_title = None, push_body = None, application_name = None\<rparr>"

definition push_frame :: "push \<Rightarrow> ws_msg" where
  "push_frame p = \<lparr>msg_type = ''push'', msg_subtype = None, msg_push = Some p\<rparr>"

definition snapshot_thread :: "string \<Rightarrow> string \<Rightarrow> thread" where
  "snapshot_thread i b =
     \<lparr>thread_ident = i,
      recipients = Some [\<lparr>recipient_name = Some ''Mom'', recipient_number = None\<rparr>],
      latest = Some \<lparr>latest_body = Some b, latest_timestamp = 1700000500\<rparr>\<rparr>"

definition message :: "string \<Rightarrow> string \<Rightarrow> string \<Rightarrow> string \<Rightarrow> sms" where
  "message i who b ts =
     \<lparr>sms_id = i, sender = who, body = b, timestamp = ts, threadId = None, app = None\<rparr>"

definition from_bank :: sms_filter where
  "from_bank = \<lparr>filter_sender = Some ''bank'', filter_contains = None, filter_hasCode = False\<rparr>"

definition five_from_mom :: "sms list" where
  "five_from_mom =
     map (\<lambda>i. message i ''Mom'' ''Dinner at 8'' ''2023-11-14T22:13:20.000Z'')
       [''m1'', ''m2'', ''m3'', ''m4'', ''m5'']"

section \<open>Properties\<close>

subsection \<open>Facts about the store operations\<close>

lemma keep_max_take: "keep_max store = take MAX_STORED_MESSAGES store"
proof (induction store rule: keep_max.induct)
  case (1 store)
  show ?case
  proof (cases "length store > MAX_STORED_MESSAGES")
    case True
    then have "keep_max store = take MAX_STORED_MESSAGES (butlast store)"
      using 1 by (subst keep_max.simps) simp
    also have "\<dots> = take MAX_STORED_MESSAGES store"
      using True by (simp add: butlast_conv_take)
    finally show ?thesis .
  next
    case False
    then show ?thesis by (subst keep_max.simps) simp
  qed
qed

lemma addSmsMessage_take: "addSmsMessage s store = take MAX_STORED_MESSAGES (s # store)"
  by (simp add: addSmsMessage_def keep_max_take)

lemma length_addSmsMessage: "length (addSmsMessage s store) = min MAX_STORED_MESSAGES (Suc (length store))"
  by (simp add: addSmsMessage_take del: take_Suc_Cons)

lemma set_addSmsMessage: "set (addSmsMessage s store) \<subseteq> insert s (set store)"
  using set_take_subset [of MAX_STORED_MESSAGES "s # store"]
  by (simp add: addSmsMessage_take del: take_Suc_Cons)

lemma has_id_iff: "has_id i store \<longleftrightarrow> i \<in> sms_id ` set store"
  by (auto simp: has_id_def find_None_iff)

lemma merge_messages_appends:
  "\<exists>new. merge_messages ms store = store @ new \<and> subseq new ms
     \<and> list_all (\<lambda>x. \<not> has_id (sms_id x) store) new"
proof (induction ms arbitrary: store)
  case Nil
  then show ?case by simp
next
  case (Cons m ms)
  show ?case
  proof (cases "has_id (sms_id m) store")
    case True
    from Cons.IH [of store] obtain new where
      "merge_messages ms store = store @ new" "subseq new ms"
      "list_all (\<lambda>x. \<not> has_id (sms_id x) store) new" by blast
    with True show ?thesis by (auto intro: subseq_Cons')
  next
    case False
    from Cons.IH [of "store @ [m]"] obtain new where n:
      "merge_messages ms (store @ [m]) = (store @ [m]) @ new" "subseq new ms"
      "list_all (\<lambda>x. \<not> has_id (sms_id x) (store @ [m])) new" by blast
    have "list_all (\<lambda>x. \<not> has_id (sms_id x) store) (m # new)"
      using n(3) False by (auto simp: list_all_iff has_id_iff)
    moreover have "subseq (m # new) (m # ms)" using n(2) by simp
    moreover have "merge_messages (m # ms) store = store @ (m # new)"
      using n(1) False by simp
    ultimately show ?thesis by blast
  qed
qed

lemma fetch_sms_threads_appends:
  "\<exists>new. fetch_sms_threads limit_arg response store = store @ new
     \<and> subseq new (fetchSmsFromApi response (number_or limit_arg 20))
     \<and> list_all (\<lambda>x. \<not> has_id (sms_id x) store) new"
proof (cases "fetchSmsFromApi response (number_or limit_arg 20) = []")
  case True
  then have "fetch_sms_threads limit_arg response store = store @ []"
    by (simp add: fetch_sms_threads_def)
  then show ?thesis by (intro exI [of _ "[]"]) simp
next
  case False
  then have "fetch_sms_threads limit_arg response store =
      merge_messages (fetchSmsFromApi response (number_or limit_arg 20)) store"
    by (simp add: fetch_sms_threads_def)
  then show ?thesis using merge_messages_appends by simp
qed

lemma includes_str_Nil: "includes_str s []"
  by (cases s) simp_all

lemma slice0_take: "0 \<le> e \<Longrightarrow> slice0 xs e = take (nat e) xs"
  by (simp add: slice0_def)

lemma slice0_prefix: "\<exists>n. slice0 xs e = take n xs"
  by (auto simp: slice0_def)

lemma sender_includes_Nil: "sender_includes [] s"
  by (simp add: sender_includes_def toLowerCase_def includes_str_Nil)

lemma get_recent_sms_filter:
  "get_recent_sms limit_arg sender_arg store =
     filter (\<lambda>s. case sender_arg of None \<Rightarrow> True | Some q \<Rightarrow> sender_includes q s)
       (slice0 store (number_or limit_arg 10))"
proof (cases sender_arg)
  case None
  then show ?thesis by (simp add: get_recent_sms_def)
next
  case (Some q)
  then show ?thesis
    by (cases "q = []") (simp_all add: get_recent_sms_def sender_includes_Nil)
qed

subsection \<open>The thread merge keeps what is stored\<close>

text \<open>
  C10: the merge of \<^verbatim>\<open>fetch_sms_threads\<close> compares identifiers only. Every message
  stored before the call is still there afterwards, at its position and with all its
  fields; and for a fetched thread whose identifier is already stored, the entries
  under that identifier are the same before and after the call: the thread's latest
  message replaces nothing and is not added.
\<close>

theorem fetch_sms_threads_keeps_stored_messages:
  "take (length store) (fetch_sms_threads limit_arg response store) = store
   \<and> (\<forall>m \<in> set (fetchSmsFromApi response (number_or limit_arg 20)).
         has_id (sms_id m) store \<longrightarrow>
         filter (\<lambda>s. sms_id s = sms_id m) (fetch_sms_threads limit_arg response store)
           = filter (\<lambda>s. sms_id s = sms_id m) store)"
proof -
  from fetch_sms_threads_appends [of limit_arg response store] obtain new where
    eq: "fetch_sms_threads limit_arg response store = store @ new"
    and fresh: "list_all (\<lambda>x. \<not> has_id (sms_id x) store) new" by blast
  have "filter (\<lambda>s. sms_id s = i) new = []" if "has_id i store" for i
    using fresh that by (auto simp: list_all_iff filter_empty_conv)
  then show ?thesis by (simp add: eq)
qed

theorem fetch_sms_threads_keeps_stored_messages_witness:
  "has_id ''T1'' [message ''T1'' ''Mom'' ''old text'' ''2023-11-14T22:13:20.000Z'']
   \<and> fetchSmsFromApi (Some [snapshot_thread ''T1'' ''new text'']) (number_or None 20)
       = [\<lparr>sms_id = ''T1'', sender = ''Mom'', body = ''new text'',
           timestamp = ''2023-11-14T22:21:40.000Z'', threadId = Some ''T1'', app = None\<rparr>]
   \<and> take (length [message ''T1'' ''Mom'' ''old text'' ''2023-11-14T22:13:20.000Z''])
         (fetch_sms_threads None (Some [snapshot_thread ''T1'' ''new text''])
            [message ''T1'' ''Mom'' ''old text'' ''2023-11-14T22:13:20.000Z''])
       = [message ''T1'' ''Mom'' ''old text'' ''2023-11-14T22:13:20.000Z'']
   \<and> filter (\<lambda>s. sms_id s = ''T1'')
         (fetch_sms_threads None (Some [snapshot_thread ''T1'' ''new text''])
            [message ''T1'' ''Mom'' ''old text'' ''2023-11-14T22:13:20.000Z''])
       = filter (\<lambda>s. sms_id s = ''T1'')
           [message ''T1'' ''Mom'' ''old text'' ''2023-11-14T22:13:20.000Z'']"
proof -
  let ?store = "[message ''T1'' ''Mom'' ''old text'' ''2023-11-14T22:13:20.000Z'']"
  let ?resp = "Some [snapshot_thread ''T1'' ''new text'']"
  let ?new = "\<lparr>sms_id = ''T1'', sender = ''Mom'', body = ''new text'',
           timestamp = ''2023-11-14T22:21:40.000Z'', threadId = Some ''T1'', app = None\<rparr>"
  note inst = fetch_sms_threads_keeps_stored_messages [of ?store None ?resp]
  have h: "has_id ''T1'' ?store" by code_simp
  have f: "fetchSmsFromApi ?resp (number_or None 20) = [?new]" by code_simp
  have t: "take (length ?store) (fetch_sms_threads None ?resp ?store) = ?store"
    by (rule conjunct1 [OF inst])
  have "?new \<in> set (fetchSmsFromApi ?resp (number_or None 20))"
    unfolding f by (rule list.set_intros(1))
  with conjunct2 [OF inst]
  have "has_id (sms_id ?new) ?store \<longrightarrow>
          filter (\<lambda>s. sms_id s = sms_id ?new) (fetch_sms_threads None ?resp ?store)
            = filter (\<lambda>s. sms_id s = sms_id ?new) ?store"
    by (rule bspec)
  moreover have i: "sms_id ?new = ''T1''" by (simp only: sms.simps)
  ultimately have e: "filter (\<lambda>s. sms_id s = ''T1'') (fetch_sms_threads None ?resp ?store)
            = filter (\<lambda>s. sms_id s = ''T1'') ?store"
    using h by (simp only: i)
  show ?thesis by (intro conjI h f t e)
qed

subsection \<open>Listing truncates, then filters\<close>

text \<open>
  C9, as the code has it: \<^verbatim>\<open>get_recent_sms\<close> filters by sender only after it has cut
  the store with \<^verbatim>\<open>slice(0, limit)\<close>, where \<open>limit\<close> is \<^verbatim>\<open>args.limit || 10\<close>: the
  result is the sender-matching entries of that slice. For a limit that is not
  negative the slice is the first \<open>limit\<close> entries of the store, in the order of the
  store; the result is the same on the store cut to those entries, and every entry
  returned stands at a store position below \<open>limit\<close>, so a matching message at position
  \<open>limit\<close> or beyond is not returned, however few are reported. For a negative limit
  the slice is the store without its last \<open>-limit\<close> entries.
\<close>

theorem get_recent_sms_filters_the_slice:
  "get_recent_sms limit_arg sender_arg store =
     filter (\<lambda>s. case sender_arg of None \<Rightarrow> True | Some q \<Rightarrow> sender_includes q s)
       (slice0 store (number_or limit_arg 10))
   \<and> (0 \<le> number_or limit_arg 10 \<longrightarrow>
        slice0 store (number_or limit_arg 10) = take (nat (number_or limit_arg 10)) store
        \<and> get_recent_sms limit_arg sender_arg store =
            get_recent_sms limit_arg sender_arg (take (nat (number_or limit_arg 10)) store)
        \<and> (\<forall>s \<in> set (get_recent_sms limit_arg sender_arg store).
              \<exists>i < nat (number_or limit_arg 10). i < length store \<and> store ! i = s))
   \<and> (number_or limit_arg 10 < 0 \<longrightarrow>
        slice0 store (number_or limit_arg 10) =
          take (length store - nat (- number_or limit_arg 10)) store)"
proof (intro conjI impI)
  show "get_recent_sms limit_arg sender_arg store =
     filter (\<lambda>s. case sender_arg of None \<Rightarrow> True | Some q \<Rightarrow> sender_includes q s)
       (slice0 store (number_or limit_arg 10))"
    by (rule get_recent_sms_filter)
next
  assume "0 \<le> number_or limit_arg 10"
  then show "slice0 store (number_or limit_arg 10) = take (nat (number_or limit_arg 10)) store"
    by (rule slice0_take)
next
  assume "0 \<le> number_or limit_arg 10"
  then show "get_recent_sms limit_arg sender_arg store =
      get_recent_sms limit_arg sender_arg (take (nat (number_or limit_arg 10)) store)"
    by (simp add: get_recent_sms_filter slice0_take)
next
  assume nonneg: "0 \<le> number_or limit_arg 10"
  show "\<forall>s \<in> set (get_recent_sms limit_arg sender_arg store).
          \<exists>i < nat (number_or limit_arg 10). i < length store \<and> store ! i = s"
  proof
    fix s
    assume "s \<in> set (get_recent_sms limit_arg sender_arg store)"
    then have "s \<in> set (take (nat (number_or limit_arg 10)) store)"
      using nonneg by (simp add: get_recent_sms_filter slice0_take)
    then obtain i where "i < length (take (nat (number_or limit_arg 10)) store)"
      "take (nat (number_or limit_arg 10)) store ! i = s"
      by (auto simp: in_set_conv_nth)
    then have "i < nat (number_or limit_arg 10) \<and> i < length store \<and> store ! i = s" by simp
    then show "\<exists>i < nat (number_or limit_arg 10). i < length store \<and> store ! i = s" by blast
  qed
next
  assume "number_or limit_arg 10 < 0"
  then have "nat (int (length store) + number_or limit_arg 10)
      = length store - nat (- number_or limit_arg 10)" by linarith
  with \<open>number_or limit_arg 10 < 0\<close>
  show "slice0 store (number_or limit_arg 10) =
          take (length store - nat (- number_or limit_arg 10)) store"
    by (simp add: slice0_def)
qed

theorem get_recent_sms_filters_the_slice_witness:
  "0 \<le> number_or (Some 2) 10
   \<and> slice0 [message ''a'' ''Mom'' ''hi'' ''t'', message ''b'' ''Dad'' ''ho'' ''t'',
              message ''c'' ''My Bank'' ''Code 1234'' ''t''] (number_or (Some 2) 10)
       = take (nat (number_or (Some 2) 10))
           [message ''a'' ''Mom'' ''hi'' ''t'', message ''b'' ''Dad'' ''ho'' ''t'',
            message ''c'' ''My Bank'' ''Code 1234'' ''t'']
   \<and> sender_includes ''bank'' (message ''c'' ''My Bank'' ''Code 1234'' ''t'')
   \<and> get_recent_sms (Some 2) (Some ''bank'')
        [message ''a'' ''Mom'' ''hi'' ''t'', message ''b'' ''Dad'' ''ho'' ''t'',
         message ''c'' ''My Bank'' ''Code 1234'' ''t''] = []
   \<and> number_or (Some (- 1)) 10 < 0
   \<and> slice0 [message ''a'' ''Mom'' ''hi'' ''t'', message ''b'' ''Dad'' ''ho'' ''t'',
              message ''c'' ''My Bank'' ''Code 1234'' ''t''] (number_or (Some (- 1)) 10)
       = take (length [message ''a'' ''Mom'' ''hi'' ''t'', message ''b'' ''Dad'' ''ho'' ''t'',
                       message ''c'' ''My Bank'' ''Code 1234'' ''t'']
               - nat (- number_or (Some (- 1)) 10))
           [message ''a'' ''Mom'' ''hi'' ''t'', message ''b'' ''Dad'' ''ho'' ''t'',
            message ''c'' ''My Bank'' ''Code 1234'' ''t'']
   \<and> map sms_id (get_recent_sms (Some (- 1)) None
        [message ''a'' ''Mom'' ''hi'' ''t'', message ''b'' ''Dad'' ''ho'' ''t'',
         message ''c'' ''My Bank'' ''Code 1234'' ''t'']) = [''a'', ''b'']"
proof -
  let ?store = "[message ''a'' ''Mom'' ''hi'' ''t'', message ''b'' ''Dad'' ''ho'' ''t'',
         message ''c'' ''My Bank'' ''Code 1234'' ''t'']"
  note pos = get_recent_sms_filters_the_slice [of "Some 2" "Some ''bank''" ?store]
  note neg = get_recent_sms_filters_the_slice [of "Some (- 1)" None ?store]
  have h: "0 \<le> number_or (Some 2) 10" by (simp add: number_or_def)
  have g: "number_or (Some (- 1)) 10 < 0" by (simp add: number_or_def)
  have "0 \<le> number_or (Some 2) 10 \<longrightarrow>
        slice0 ?store (number_or (Some 2) 10) = take (nat (number_or (Some 2) 10)) ?store
        \<and> get_recent_sms (Some 2) (Some ''bank'') ?store =
            get_recent_sms (Some 2) (Some ''bank'') (take (nat (number_or (Some 2) 10)) ?store)
        \<and> (\<forall>s \<in> set (get_recent_sms (Some 2) (Some ''bank'') ?store).
              \<exists>i < nat (number_or (Some 2) 10). i < length ?store \<and> ?store ! i = s)"
    by (rule conjunct1 [OF conjunct2 [OF pos]])
  with h have e: "slice0 ?store (number_or (Some 2) 10) = take (nat (number_or (Some 2) 10)) ?store"
    by blast
  have "number_or (Some (- 1)) 10 < 0 \<longrightarrow>
        slice0 ?store (number_or (Some (- 1)) 10) =
          take (length ?store - nat (- number_or (Some (- 1)) 10)) ?store"
    by (rule conjunct2 [OF conjunct2 [OF neg]])
  with g have n: "slice0 ?store (number_or (Some (- 1)) 10) =
          take (length ?store - nat (- number_or (Some (- 1)) 10)) ?store"
    by (rule rev_mp)
  have m: "sender_includes ''bank'' (message ''c'' ''My Bank'' ''Code 1234'' ''t'')" by code_simp
  have r: "get_recent_sms (Some 2) (Some ''bank'') ?store = []" by code_simp
  have r': "map sms_id (get_recent_sms (Some (- 1)) None ?store) = [''a'', ''b'']" by code_simp
  show ?thesis by (intro conjI h e m r g n r')
qed

text \<open>
  C9 as stated fails. After a message of the bank on the stream, \<^verbatim>\<open>fetch_sms_threads\<close>
  merges a thread of Mom: the newest-inserted message is Mom's, and with limit 1 and
  the sender filter \<^verbatim>\<open>mom\<close> the listing is empty, since the first entry of the store is
  the bank's. With limit -1 a store of three messages lists its first two, which stand
  at positions beyond the limit.
\<close>

theorem get_recent_sms_not_the_newest_inserted:
  "map sender
     (run [StreamFrame (\<lambda>k. 1700000000000)
             (push_frame (sms_changed_push [bank_notification ''Code 482913''])),
           FetchThreads None (Some [snapshot_thread ''T1'' ''Hello''])])
     = [''Bank'', ''Mom'']
   \<and> map sender
     (run [StreamFrame (\<lambda>k. 1700000000000)
             (push_frame (sms_changed_push [bank_notification ''Code 482913'']))])
     = [''Bank'']
   \<and> get_recent_sms (Some 1) (Some ''mom'')
     (run [StreamFrame (\<lambda>k. 1700000000000)
             (push_frame (sms_changed_push [bank_notification ''Code 482913''])),
           FetchThreads None (Some [snapshot_thread ''T1'' ''Hello''])])
     = []
   \<and> map sms_id (get_recent_sms (Some (- 1)) None (take 3 five_from_mom)) = [''m1'', ''m2'']"
  by code_simp

subsection \<open>The order of the code patterns\<close>

lemma first_match_Cons_Some: "p txt = Some g \<Longrightarrow> first_match (p # ps) txt = Some g"
  by simp

lemma first_match_Cons_None: "p txt = None \<Longrightarrow> first_match (p # ps) txt = first_match ps txt"
  by simp

text \<open>
  C7: \<^verbatim>\<open>extractVerificationCode\<close> tries the six patterns in the order 6-digit run,
  4-digit run, 8-digit run, \<^verbatim>\<open>code[:\s]+digits\<close>, \<^verbatim>\<open>digits is your\<close>,
  \<^verbatim>\<open>verify[:\s]+digits\<close>; the first pattern that matches gives the result, its capture
  group, and the result is nothing when none matches. On \<^verbatim>\<open>Your code is 482913\<close> and on
  \<^verbatim>\<open>482913 is your verification code\<close> the result is \<^verbatim>\<open>482913\<close> (in the second
  text the phrase pattern matches too, and the bare 6-digit pattern wins), and on
  \<^verbatim>\<open>Hello, how are you?\<close> it is nothing.
\<close>

theorem extractVerificationCode_first_pattern_wins:
  "(pattern_6_digits t = Some g \<longrightarrow> extractVerificationCode t = Some g)
   \<and> (pattern_6_digits t = None \<and> pattern_4_digits t = Some g \<longrightarrow>
        extractVerificationCode t = Some g)
   \<and> (pattern_6_digits t = None \<and> pattern_4_digits t = None \<and> pattern_8_digits t = Some g \<longrightarrow>
        extractVerificationCode t = Some g)
   \<and> (pattern_6_digits t = None \<and> pattern_4_digits t = None \<and> pattern_8_digits t = None
        \<and> pattern_code t = Some g \<longrightarrow> extractVerificationCode t = Some g)
   \<and> (pattern_6_digits t = None \<and> pattern_4_digits t = None \<and> pattern_8_digits t = None
        \<and> pattern_code t = None \<and> pattern_is_your t = Some g \<longrightarrow>
        extractVerificationCode t = Some g)
   \<and> (pattern_6_digits t = None \<and> pattern_4_digits t = None \<and> pattern_8_digits t = None
        \<and> pattern_code t = None \<and> pattern_is_your t = None \<and> pattern_verify t = Some g \<longrightarrow>
        extractVerificationCode t = Some g)
   \<and> (pattern_6_digits t = None \<and> pattern_4_digits t = None \<and> pattern_8_digits t = None
        \<and> pattern_code t = None \<and> pattern_is_your t = None \<and> pattern_verify t = None \<longrightarrow>
        extractVerificationCode t = None)
   \<and> extractVerificationCode ''Your code is 482913'' = Some ''482913''
   \<and> extractVerificationCode ''482913 is your verification code'' = Some ''482913''
   \<and> pattern_is_your ''482913 is your verification code'' = Some ''482913''
   \<and> extractVerificationCode ''Hello, how are you?'' = None"
proof -
  have order: "extractVerificationCode t =
      first_match [pattern_6_digits, pattern_4_digits, pattern_8_digits,
                   pattern_code, pattern_is_your, pattern_verify] t"
    by (simp only: extractVerificationCode_def patterns_def)
  have e1: "extractVerificationCode ''Your code is 482913'' = Some ''482913''" by code_simp
  have e2: "extractVerificationCode ''482913 is your verification code'' = Some ''482913''"
    by code_simp
  have e3: "pattern_is_your ''482913 is your verification code'' = Some ''482913''"
    by code_simp
  have e4: "extractVerificationCode ''Hello, how are you?'' = None" by code_simp
  show ?thesis
    by (intro conjI impI e1 e2 e3 e4; (elim conjE)?)
       (simp_all only: order first_match.simps option.case)
qed

theorem extractVerificationCode_first_pattern_wins_witness:
  "pattern_6_digits ''Your code is 482913'' = Some ''482913''
   \<and> extractVerificationCode ''Your code is 482913'' = Some ''482913''
   \<and> pattern_6_digits ''PIN 1234.'' = None \<and> pattern_4_digits ''PIN 1234.'' = Some ''1234''
   \<and> extractVerificationCode ''PIN 1234.'' = Some ''1234''
   \<and> pattern_6_digits ''ref 12345678'' = None \<and> pattern_4_digits ''ref 12345678'' = None
   \<and> pattern_8_digits ''ref 12345678'' = Some ''12345678''
   \<and> extractVerificationCode ''ref 12345678'' = Some ''12345678''
   \<and> pattern_6_digits ''code: 12345'' = None \<and> pattern_4_digits ''code: 12345'' = None
   \<and> pattern_8_digits ''code: 12345'' = None \<and> pattern_code ''code: 12345'' = Some ''12345''
   \<and> extractVerificationCode ''code: 12345'' = Some ''12345''
   \<and> pattern_6_digits ''12345 is your'' = None \<and> pattern_4_digits ''12345 is your'' = None
   \<and> pattern_8_digits ''12345 is your'' = None \<and> pattern_code ''12345 is your'' = None
   \<and> pattern_is_your ''12345 is your'' = Some ''12345''
   \<and> extractVerificationCode ''12345 is your'' = Some ''12345''
   \<and> pattern_6_digits ''VERIFY: 1234567'' = None \<and> pattern_4_digits ''VERIFY: 1234567'' = None
   \<and> pattern_8_digits ''VERIFY: 1234567'' = None \<and> pattern_code ''VERIFY: 1234567'' = None
   \<and> pattern_is_your ''VERIFY: 1234567'' = None
   \<and> pattern_verify ''VERIFY: 1234567'' = Some ''1234567''
   \<and> extractVerificationCode ''VERIFY: 1234567'' = Some ''1234567''
   \<and> pattern_6_digits ''Hello, how are you?'' = None
   \<and> pattern_4_digits ''Hello, how are you?'' = None
   \<and> pattern_8_digits ''Hello, how are you?'' = None
   \<and> pattern_code ''Hello, how are you?'' = None
   \<and> pattern_is_your ''Hello, how are you?'' = None
   \<and> pattern_verify ''Hello, how are you?'' = None
   \<and> extractVerificationCode ''Hello, how are you?'' = None"
proof -
  note w = extractVerificationCode_first_pattern_wins
  have a1: "pattern_6_digits ''Your code is 482913'' = Some ''482913''" by code_simp
  have b1: "pattern_6_digits ''PIN 1234.'' = None" by code_simp
  have b2: "pattern_4_digits ''PIN 1234.'' = Some ''1234''" by code_simp
  have c1: "pattern_6_digits ''ref 12345678'' = None" by code_simp
  have c2: "pattern_4_digits ''ref 12345678'' = None" by code_simp
  have c3: "pattern_8_digits ''ref 12345678'' = Some ''12345678''" by code_simp
  have d1: "pattern_6_digits ''code: 12345'' = None" by code_simp
  have d2: "pattern_4_digits ''code: 12345'' = None" by code_simp
  have d3: "pattern_8_digits ''code: 12345'' = None" by code_simp
  have d4: "pattern_code ''code: 12345'' = Some ''12345''" by code_simp
  have e1: "pattern_6_digits ''12345 is your'' = None" by code_simp
  have e2: "pattern_4_digits ''12345 is your'' = None" by code_simp
  have e3: "pattern_8_digits ''12345 is your'' = None" by code_simp
  have e4: "pattern_code ''12345 is your'' = None" by code_simp
  have e5: "pattern_is_your ''12345 is your'' = Some ''12345''" by code_simp
  have f1: "pattern_6_digits ''VERIFY: 1234567'' = None" by code_simp
  have f2: "pattern_4_digits ''VERIFY: 1234567'' = None" by code_simp
  have f3: "pattern_8_digits ''VERIFY: 1234567'' = None" by code_simp
  have f4: "pattern_code ''VERIFY: 1234567'' = None" by code_simp
  have f5: "pattern_is_your ''VERIFY: 1234567'' = None" by code_simp
  have f6: "pattern_verify ''VERIFY: 1234567'' = Some ''1234567''" by code_simp
  have g1: "pattern_6_digits ''Hello, how are you?'' = None" by code_simp
  have g2: "pattern_4_digits ''Hello, how are you?'' = None" by code_simp
  have g3: "pattern_8_digits ''Hello, how are you?'' = None" by code_simp
  have g4: "pattern_code ''Hello, how are you?'' = None" by code_simp
  have g5: "pattern_is_your ''Hello, how are you?'' = None" by code_simp
  have g6: "pattern_verify ''Hello, how are you?'' = None" by code_simp
  have ra: "extractVerificationCode ''Your code is 482913'' = Some ''482913''"
    using w [of "''Your code is 482913''" "''482913''"] a1 by (elim conjE) (erule mp)
  have rb: "extractVerificationCode ''PIN 1234.'' = Some ''1234''"
    using w [of "''PIN 1234.''" "''1234''"] b1 b2 by (elim conjE) (erule mp, intro conjI)
  have rc: "extractVerificationCode ''ref 12345678'' = Some ''12345678''"
    using w [of "''ref 12345678''" "''12345678''"] c1 c2 c3
    by (elim conjE) (erule mp, intro conjI)
  have rd: "extractVerificationCode ''code: 12345'' = Some ''12345''"
    using w [of "''code: 12345''" "''12345''"] d1 d2 d3 d4
    by (elim conjE) (erule mp, intro conjI)
  have re: "extractVerificationCode ''12345 is your'' = Some ''12345''"
    using w [of "''12345 is your''" "''12345''"] e1 e2 e3 e4 e5
    by (elim conjE) (erule mp, intro conjI)
  have rf: "extractVerificationCode ''VERIFY: 1234567'' = Some ''1234567''"
    using w [of "''VERIFY: 1234567''" "''1234567''"] f1 f2 f3 f4 f5 f6
    by (elim conjE) (erule mp, intro conjI)
  have rg: "extractVerificationCode ''Hello, how are you?'' = None"
    using w [of "''Hello, how are you?''" "''''"] g1 g2 g3 g4 g5 g6
    by (elim conjE) (erule mp, intro conjI)
  show ?thesis
    by (intro conjI a1 ra b1 b2 rb c1 c2 c3 rc d1 d2 d3 d4 rd e1 e2 e3 e4 e5 re
          f1 f2 f3 f4 f5 f6 rf g1 g2 g3 g4 g5 g6 rg)
qed

subsection \<open>Freshness in the polling phase\<close>

lemma scan_indices_Some:
  "scan_indices getTime filt startTime store js = Inr (Some m) \<Longrightarrow>
     accepts filt m \<and> is_new getTime startTime m \<and> m \<in> set store"
  by (induction js) (auto split: if_splits)

lemma wait_loop_Some:
  "wait_loop getTime filt startTime timeoutMs n ticks = Some (Inr (Some m)) \<Longrightarrow>
     accepts filt m \<and> is_new getTime startTime m"
proof (induction ticks)
  case Nil
  then show ?case by simp
next
  case (Cons tick ticks)
  obtain now store where tick: "tick = (now, store)" by (cases tick)
  show ?case
  proof (cases "scan_new getTime filt startTime n store")
    case (Inl e)
    with Cons.prems tick show ?thesis by (simp split: if_splits)
  next
    case (Inr r)
    show ?thesis
    proof (cases r)
      case None
      with Inr Cons tick show ?thesis by (simp split: if_splits)
    next
      case (Some s)
      with Inr Cons.prems tick have "s = m" by (simp split: if_splits)
      with Inr Some show ?thesis
        using scan_indices_Some [of getTime filt startTime store _ m]
        by (simp add: scan_new_def)
    qed
  qed
qed

lemma is_new_time:
  "is_new getTime startTime m \<longleftrightarrow> (\<exists>t. getTime (timestamp m) = Some t \<and> startTime - 60000 < t)"
  by (simp add: is_new_def split: option.splits)

text \<open>
  C6: in the polling phase of \<^verbatim>\<open>waitForSms\<close>, that is when the first scan of the
  store found no message for the filter, a message is returned only if its timestamp
  is no older than 60 seconds before the wait started; a message whose timestamp is
  older than that is never returned, whether it satisfies the filter or not.
\<close>

theorem waitForSms_polling_returns_fresh_only:
  assumes "find (accepts filt) store = None"
  shows "(waitForSms getTime filt timeoutMs startTime store ticks = Some (Inr (Some m)) \<longrightarrow>
            (\<exists>t. getTime (timestamp m) = Some t \<and> startTime - 60000 \<le> t))
         \<and> (\<forall>t. getTime (timestamp m) = Some t \<and> t < startTime - 60000 \<longrightarrow>
               waitForSms getTime filt timeoutMs startTime store ticks \<noteq> Some (Inr (Some m)))"
proof -
  have loop: "waitForSms getTime filt timeoutMs startTime store ticks =
      wait_loop getTime filt startTime timeoutMs (length store) ticks"
    using assms by (simp add: waitForSms_def)
  have fresh: "\<exists>t. getTime (timestamp m) = Some t \<and> startTime - 60000 < t"
    if "waitForSms getTime filt timeoutMs startTime store ticks = Some (Inr (Some m))"
    using that wait_loop_Some [of getTime filt startTime timeoutMs "length store" ticks m]
    by (simp add: loop is_new_time)
  show ?thesis
  proof (intro conjI impI allI)
    assume "waitForSms getTime filt timeoutMs startTime store ticks = Some (Inr (Some m))"
    from fresh [OF this] show "\<exists>t. getTime (timestamp m) = Some t \<and> startTime - 60000 \<le> t"
      by auto
  next
    fix t
    assume "getTime (timestamp m) = Some t \<and> t < startTime - 60000"
    then show "waitForSms getTime filt timeoutMs startTime store ticks \<noteq> Some (Inr (Some m))"
      using fresh by auto
  qed
qed

theorem waitForSms_polling_returns_fresh_only_witness:
  "find (accepts (Some from_bank)) five_from_mom = None
   \<and> waitForSms Date_parse_iso (Some from_bank) 60000 1700000000000 five_from_mom
        [(1700000000000,
          message ''7_1700000000'' ''Bank'' ''Code 482913'' ''2023-11-14T22:13:20.500Z''
            # five_from_mom)]
       = Some (Inr (Some (message ''7_1700000000'' ''Bank'' ''Code 482913''
                           ''2023-11-14T22:13:20.500Z'')))
   \<and> (\<exists>t. Date_parse_iso (timestamp (message ''7_1700000000'' ''Bank'' ''Code 482913''
                                         ''2023-11-14T22:13:20.500Z'')) = Some t
           \<and> 1700000000000 - 60000 \<le> t)
   \<and> Date_parse_iso (timestamp (message ''7_1699990000'' ''Bank'' ''Code 111111''
                                   ''2023-11-14T19:26:40.000Z'')) = Some 1699990000000
   \<and> accepts (Some from_bank) (message ''7_1699990000'' ''Bank'' ''Code 111111''
                                  ''2023-11-14T19:26:40.000Z'')
   \<and> waitForSms Date_parse_iso (Some from_bank) 2000 1700000000000 five_from_mom
        [(1700000000000,
          message ''7_1699990000'' ''Bank'' ''Code 111111'' ''2023-11-14T19:26:40.000Z''
            # five_from_mom),
         (1700000001001,
          message ''7_1699990000'' ''Bank'' ''Code 111111'' ''2023-11-14T19:26:40.000Z''
            # five_from_mom),
         (1700000002002, [])]
       \<noteq> Some (Inr (Some (message ''7_1699990000'' ''Bank'' ''Code 111111''
                             ''2023-11-14T19:26:40.000Z'')))
   \<and> waitForSms Date_parse_iso (Some from_bank) 2000 1700000000000 five_from_mom
        [(1700000000000,
          message ''7_1699990000'' ''Bank'' ''Code 111111'' ''2023-11-14T19:26:40.000Z''
            # five_from_mom),
         (1700000001001,
          message ''7_1699990000'' ''Bank'' ''Code 111111'' ''2023-11-14T19:26:40.000Z''
            # five_from_mom),
         (1700000002002, [])]
       = Some (Inr None)"
proof -
  let ?fresh = "message ''7_1700000000'' ''Bank'' ''Code 482913'' ''2023-11-14T22:13:20.500Z''"
  let ?stale = "message ''7_1699990000'' ''Bank'' ''Code 111111'' ''2023-11-14T19:26:40.000Z''"
  let ?ticks = "[(1700000000000, ?stale # five_from_mom),
                 (1700000001001, ?stale # five_from_mom), (1700000002002, [])]"
  note inst = waitForSms_polling_returns_fresh_only
  have h: "find (accepts (Some from_bank)) five_from_mom = None" by code_simp
  have r1: "waitForSms Date_parse_iso (Some from_bank) 60000 1700000000000 five_from_mom
        [(1700000000000, ?fresh # five_from_mom)] = Some (Inr (Some ?fresh))" by code_simp
  have c1: "\<exists>t. Date_parse_iso (timestamp ?fresh) = Some t \<and> 1700000000000 - 60000 \<le> t"
    using conjunct1 [OF inst [OF h, of Date_parse_iso 60000 1700000000000
        "[(1700000000000, ?fresh # five_from_mom)]" ?fresh]] r1 by (rule mp)
  have p: "Date_parse_iso (timestamp ?stale) = Some 1699990000000" by code_simp
  have a: "accepts (Some from_bank) ?stale" by code_simp
  have old: "(1699990000000::int) < 1700000000000 - 60000" by simp
  have c2: "waitForSms Date_parse_iso (Some from_bank) 2000 1700000000000 five_from_mom ?ticks
       \<noteq> Some (Inr (Some ?stale))"
    using conjunct2 [OF inst [OF h, of Date_parse_iso 2000 1700000000000 ?ticks ?stale]] p old
    by blast
  have r2: "waitForSms Date_parse_iso (Some from_bank) 2000 1700000000000 five_from_mom ?ticks
       = Some (Inr None)" by code_simp
  show ?thesis by (intro conjI h r1 c1 p a c2 r2)
qed

subsection \<open>The order of a listing\<close>

lemma slice0_map: "slice0 (map f xs) e = map f (slice0 xs e)"
  by (simp add: slice0_def take_map)

lemma sender_includes_timestamp_update:
  "sender_includes q (s\<lparr>timestamp := ts\<rparr>) = sender_includes q s"
  by (simp add: sender_includes_def)

lemma get_recent_sms_ignores_timestamps:
  "get_recent_sms limit_arg sender_arg (map (\<lambda>s. s\<lparr>timestamp := f s\<rparr>) store) =
     map (\<lambda>s. s\<lparr>timestamp := f s\<rparr>) (get_recent_sms limit_arg sender_arg store)"
  by (simp add: get_recent_sms_filter slice0_map filter_map comp_def
        sender_includes_timestamp_update split: option.splits)

lemma get_recent_sms_subseq: "subseq (get_recent_sms limit_arg sender_arg store) store"
proof -
  obtain n where "slice0 store (number_or limit_arg 10) = take n store"
    using slice0_prefix by blast
  then have "get_recent_sms limit_arg sender_arg store =
      filter (\<lambda>s. case sender_arg of None \<Rightarrow> True | Some q \<Rightarrow> sender_includes q s) (take n store)"
    by (simp add: get_recent_sms_filter)
  moreover have "subseq (take n store) store"
    by (metis append_take_drop_id prefix_def prefix_imp_subseq)
  ultimately show ?thesis
    by (metis subseq_filter_left subseq_order.order_trans)
qed

text \<open>
  The order of a listing is the order of the store, whatever the timestamps are:
  \<^verbatim>\<open>get_recent_sms\<close> returns a subsequence of the store, and rewriting the timestamps
  of the stored messages changes nothing but the timestamps of the result.
  \<^verbatim>\<open>addSmsMessage\<close> puts a message in front; the merge of \<^verbatim>\<open>fetch_sms_threads\<close>
  appends behind every entry already stored.
\<close>

lemma get_recent_sms_store_order:
  "subseq (get_recent_sms limit_arg sender_arg store) store
   \<and> get_recent_sms limit_arg sender_arg (map (\<lambda>s. s\<lparr>timestamp := f s\<rparr>) store) =
       map (\<lambda>s. s\<lparr>timestamp := f s\<rparr>) (get_recent_sms limit_arg sender_arg store)
   \<and> addSmsMessage s store = take MAX_STORED_MESSAGES (s # store)
   \<and> (\<exists>new. fetch_sms_threads limit_arg' response store = store @ new
          \<and> subseq new (fetchSmsFromApi response (number_or limit_arg' 20)))"
proof -
  from fetch_sms_threads_appends [of limit_arg' response store]
  have "\<exists>new. fetch_sms_threads limit_arg' response store = store @ new
          \<and> subseq new (fetchSmsFromApi response (number_or limit_arg' 20))" by blast
  then show ?thesis
    using get_recent_sms_subseq get_recent_sms_ignores_timestamps addSmsMessage_take by blast
qed

text \<open>
  C3: the listing is not newest-inserted first once \<^verbatim>\<open>fetch_sms_threads\<close> has merged
  a message. The stream path and the poll path insert through \<^verbatim>\<open>addSmsMessage\<close>, at
  the front of the store; the merge appends with \<^verbatim>\<open>push\<close>. A message arrives on the
  stream, then \<^verbatim>\<open>fetch_sms_threads\<close> merges the thread \<^verbatim>\<open>T1\<close>: the merged message was
  inserted last, and \<^verbatim>\<open>get_recent_sms\<close> lists it last, not first.
\<close>

theorem get_recent_sms_merged_message_last:
  "map sms_id
     (get_recent_sms None None
        (run [StreamFrame (\<lambda>k. 1700000000000) (push_frame (sms_changed_push [bank_notification ''Code 482913''])),
              FetchThreads None (Some [snapshot_thread ''T1'' ''Hello''])]))
   = [''7_1700000000000'', ''T1'']
   \<and> map sms_id
     (run [StreamFrame (\<lambda>k. 1700000000000) (push_frame (sms_changed_push [bank_notification ''Code 482913'']))])
   = [''7_1700000000000'']"
  by code_simp

subsection \<open>Timestamps of stored messages\<close>

lemma in_addSmsMessage: "x \<in> set (addSmsMessage s store) \<Longrightarrow> x = s \<or> x \<in> set store"
  using set_addSmsMessage [of s store] by blast

lemma timestamp_poll_sms: "timestamp (poll_sms modif n) = Date_toISOString (modif * 1000)"
  by (simp add: poll_sms_def)

lemma timestamp_stream_sms: "timestamp (stream_sms clock k n) = Date_toISOString (clock (k + 1))"
  by (simp add: stream_sms_def)

lemma timestamp_mirror_sms: "timestamp (mirror_sms clock k p) = Date_toISOString (clock (k + 1))"
  by (simp add: mirror_sms_def)

lemma poll_notifications_new:
  "s \<in> set (fst (poll_notifications modif ns store)) \<Longrightarrow>
     s \<in> set store \<or> (\<exists>n \<in> set ns. s = poll_sms modif n)"
proof (induction ns arbitrary: store)
  case Nil
  then show ?case by simp
next
  case (Cons n ns)
  show ?case
  proof (cases "has_id (thread_id n @ ''_'' @ show_int modif) store")
    case True
    with Cons.prems have "s \<in> set (fst (poll_notifications modif ns store))" by simp
    from Cons.IH [OF this] show ?thesis by auto
  next
    case False
    show ?thesis
    proof (cases "valid_time (modif * 1000)")
      case True
      with False Cons.prems
      have "s \<in> set (fst (poll_notifications modif ns (addSmsMessage (poll_sms modif n) store)))"
        by simp
      from Cons.IH [OF this] in_addSmsMessage [of s "poll_sms modif n" store]
      show ?thesis by auto
    next
      case invalid: False
      with False Cons.prems show ?thesis by simp
    qed
  qed
qed

lemma poll_pushes_new:
  "s \<in> set (fst (poll_pushes pushes store)) \<Longrightarrow>
     s \<in> set store
     \<or> (\<exists>p \<in> set pushes. \<exists>ns. push_type p = ''sms_changed'' \<and> notifications p = Some ns
            \<and> (\<exists>n \<in> set ns. s = poll_sms (modified p) n))"
proof (induction pushes arbitrary: store)
  case Nil
  then show ?case by simp
next
  case (Cons p ps)
  show ?case
  proof (cases "push_type p = ''sms_changed'' \<and> notifications p \<noteq> None")
    case False
    with Cons.prems have "s \<in> set (fst (poll_pushes ps store))" by auto
    from Cons.IH [OF this] show ?thesis by auto
  next
    case True
    then obtain ns where ns: "push_type p = ''sms_changed''" "notifications p = Some ns" by auto
    obtain store' ok where r: "poll_notifications (modified p) ns store = (store', ok)"
      by (cases "poll_notifications (modified p) ns store")
    have inner: "x \<in> set store' \<Longrightarrow>
        x \<in> set store \<or> (\<exists>n \<in> set ns. x = poll_sms (modified p) n)" for x
      using poll_notifications_new [of x "modified p" ns store] r by simp
    have own: "x \<in> set store' \<Longrightarrow> x \<in> set store
        \<or> (\<exists>q \<in> set (p # ps). \<exists>ms. push_type q = ''sms_changed'' \<and> notifications q = Some ms
              \<and> (\<exists>n \<in> set ms. x = poll_sms (modified q) n))" for x
      using inner [of x] ns by auto
    show ?thesis
    proof (cases ok)
      case True
      with ns r Cons.prems have "s \<in> set (fst (poll_pushes ps store'))" by simp
      from Cons.IH [OF this] own show ?thesis by auto
    next
      case False
      with ns r Cons.prems have "s \<in> set store'" by simp
      with own show ?thesis by auto
    qed
  qed
qed

lemma sms_changed_loop_new:
  "s \<in> set (sms_changed_loop clock k ns store) \<Longrightarrow>
     s \<in> set store \<or> (\<exists>j. \<exists>n \<in> set ns. s = stream_sms clock j n)"
proof (induction ns arbitrary: k store)
  case Nil
  then show ?case by simp
next
  case (Cons n ns)
  from Cons.prems
  have "s \<in> set (sms_changed_loop clock (k + 2) ns (addSmsMessage (stream_sms clock k n) store))"
    by simp
  from Cons.IH [OF this] in_addSmsMessage [of s "stream_sms clock k n" store]
  show ?case by auto
qed

lemma handlePushbulletMessage_new:
  assumes "s \<in> set (fst (handlePushbulletMessage clock msg store))"
  shows "s \<in> set store
         \<or> (\<exists>j. (\<exists>n. s = stream_sms clock j n) \<or> (\<exists>p. s = mirror_sms clock j p))"
proof -
  have mirror: "x \<in> set (addSmsMessage (mirror_sms clock k p) st) \<Longrightarrow>
      x \<in> set st \<or> (\<exists>j. (\<exists>n. x = stream_sms clock j n) \<or> (\<exists>p. x = mirror_sms clock j p))"
    for x k p st
    using in_addSmsMessage [of x "mirror_sms clock k p" st] by auto
  have loop: "x \<in> set (sms_changed_loop clock k ns st) \<Longrightarrow>
      x \<in> set st \<or> (\<exists>j. (\<exists>n. x = stream_sms clock j n) \<or> (\<exists>p. x = mirror_sms clock j p))"
    for x k ns st
    using sms_changed_loop_new [of x clock k ns st] by auto
  show ?thesis
    using assms
    by (auto simp: handlePushbulletMessage_def Let_def
          split: if_splits option.splits
          dest!: mirror loop)
qed

lemma fetchRecentPushes_single:
  assumes "push_type p = ''sms_changed''" and "notifications p = Some [n]"
    and "\<not> has_id (thread_id n @ ''_'' @ show_int (modified p)) store"
    and "valid_time (modified p * 1000)"
  shows "fetchRecentPushes (Some [p]) store = addSmsMessage (poll_sms (modified p) n) store"
  using assms by (simp add: fetchRecentPushes_def)

text \<open>
  C8, as the code has it: on the poll path every message that
  \<^verbatim>\<open>fetchRecentPushes\<close> stores is built from one notification of one
  \<^verbatim>\<open>sms_changed\<close> push of the response, and its timestamp is the \<^verbatim>\<open>modified\<close>
  value of that same push, whole seconds, multiplied by 1000 and printed as an ISO-8601
  instant with milliseconds (its identifier carries the same \<^verbatim>\<open>modified\<close> value); a
  notification whose identifier is not stored yet is stored so. A push with
  \<^verbatim>\<open>modified\<close> = 1700000000 is stored under \<^verbatim>\<open>2023-11-14T22:13:20.000Z\<close>. On the
  stream path every stored message carries a reading of the local clock, printed the
  same way; no timestamp of the relay is read there.
\<close>

theorem poll_timestamps_are_modified_times_1000:
  "(\<forall>s \<in> set (fetchRecentPushes (Some pushes) store).
      s \<in> set store
      \<or> (\<exists>p \<in> set pushes. \<exists>ns. push_type p = ''sms_changed'' \<and> notifications p = Some ns
            \<and> (\<exists>n \<in> set ns. s = poll_sms (modified p) n)))
   \<and> timestamp (poll_sms modif n) = Date_toISOString (modif * 1000)
   \<and> sms_id (poll_sms modif n) = thread_id n @ ''_'' @ show_int modif
   \<and> (push_type p1 = ''sms_changed'' \<and> notifications p1 = Some [n1]
        \<and> \<not> has_id (thread_id n1 @ ''_'' @ show_int (modified p1)) store1
        \<and> valid_time (modified p1 * 1000) \<longrightarrow>
        fetchRecentPushes (Some [p1]) store1 = addSmsMessage (poll_sms (modified p1) n1) store1)
   \<and> (\<forall>s \<in> set (fst (handlePushbulletMessage clock msg store')).
        s \<in> set store'
        \<or> (\<exists>j. (\<exists>n. s = stream_sms clock j n) \<or> (\<exists>p. s = mirror_sms clock j p)))
   \<and> timestamp (stream_sms clock k n) = Date_toISOString (clock (k + 1))
   \<and> timestamp (mirror_sms clock k p2) = Date_toISOString (clock (k + 1))
   \<and> map timestamp
        (fetchRecentPushes (Some [sms_changed_push [bank_notification ''Code 482913'']]) [])
       = [''2023-11-14T22:13:20.000Z'']
   \<and> modified (sms_changed_push [bank_notification ''Code 482913'']) = 1700000000"
proof -
  have a: "\<forall>s \<in> set (fetchRecentPushes (Some pushes) store).
      s \<in> set store
      \<or> (\<exists>p \<in> set pushes. \<exists>ns. push_type p = ''sms_changed'' \<and> notifications p = Some ns
            \<and> (\<exists>n \<in> set ns. s = poll_sms (modified p) n))"
    using poll_pushes_new [of _ pushes store] by (simp add: fetchRecentPushes_def)
  have b: "push_type p1 = ''sms_changed'' \<and> notifications p1 = Some [n1]
        \<and> \<not> has_id (thread_id n1 @ ''_'' @ show_int (modified p1)) store1
        \<and> valid_time (modified p1 * 1000) \<longrightarrow>
        fetchRecentPushes (Some [p1]) store1 = addSmsMessage (poll_sms (modified p1) n1) store1"
    using fetchRecentPushes_single [of p1 n1 store1] by blast
  have c: "\<forall>s \<in> set (fst (handlePushbulletMessage clock msg store')).
        s \<in> set store'
        \<or> (\<exists>j. (\<exists>n. s = stream_sms clock j n) \<or> (\<exists>p. s = mirror_sms clock j p))"
    using handlePushbulletMessage_new [of _ clock msg store'] by blast
  have i: "sms_id (poll_sms modif n) = thread_id n @ ''_'' @ show_int modif"
    by (simp add: poll_sms_def)
  have e: "map timestamp
        (fetchRecentPushes (Some [sms_changed_push [bank_notification ''Code 482913'']]) [])
       = [''2023-11-14T22:13:20.000Z'']" by code_simp
  have m: "modified (sms_changed_push [bank_notification ''Code 482913'']) = 1700000000"
    by (simp add: sms_changed_push_def)
  show ?thesis
    by (intro conjI a b c i e m timestamp_poll_sms timestamp_stream_sms timestamp_mirror_sms)
qed

theorem poll_timestamps_are_modified_times_1000_witness:
  "fetchRecentPushes (Some [sms_changed_push [bank_notification ''Code 482913'']])
       [message ''m1'' ''Mom'' ''Dinner at 8'' ''2023-11-14T20:00:00.000Z'']
     = [\<lparr>sms_id = ''7_1700000000'', sender = ''Bank'', body = ''Code 482913'',
          timestamp = ''2023-11-14T22:13:20.000Z'', threadId = Some ''7'', app = None\<rparr>,
        message ''m1'' ''Mom'' ''Dinner at 8'' ''2023-11-14T20:00:00.000Z'']
   \<and> (\<exists>p \<in> set [sms_changed_push [bank_notification ''Code 482913'']].
         \<exists>ns. push_type p = ''sms_changed'' \<and> notifications p = Some ns
           \<and> (\<exists>n \<in> set ns.
                \<lparr>sms_id = ''7_1700000000'', sender = ''Bank'', body = ''Code 482913'',
                 timestamp = ''2023-11-14T22:13:20.000Z'', threadId = Some ''7'', app = None\<rparr>
                = poll_sms (modified p) n))
   \<and> push_type (sms_changed_push [bank_notification ''Code 482913'']) = ''sms_changed''
   \<and> notifications (sms_changed_push [bank_notification ''Code 482913''])
       = Some [bank_notification ''Code 482913'']
   \<and> \<not> has_id (thread_id (bank_notification ''Code 482913'') @ ''_''
                  @ show_int (modified (sms_changed_push [bank_notification ''Code 482913''])))
          [message ''m1'' ''Mom'' ''Dinner at 8'' ''2023-11-14T20:00:00.000Z'']
   \<and> valid_time (modified (sms_changed_push [bank_notification ''Code 482913'']) * 1000)
   \<and> fetchRecentPushes (Some [sms_changed_push [bank_notification ''Code 482913'']])
        [message ''m1'' ''Mom'' ''Dinner at 8'' ''2023-11-14T20:00:00.000Z'']
       = addSmsMessage
           (poll_sms (modified (sms_changed_push [bank_notification ''Code 482913'']))
              (bank_notification ''Code 482913''))
           [message ''m1'' ''Mom'' ''Dinner at 8'' ''2023-11-14T20:00:00.000Z'']
   \<and> fst (handlePushbulletMessage (\<lambda>k. 1700000123456 + int k)
            (push_frame (sms_changed_push [bank_notification ''Code 482913''])) [])
     = [\<lparr>sms_id = ''7_1700000123456'', sender = ''Bank'', body = ''Code 482913'',
          timestamp = ''2023-11-14T22:15:23.457Z'', threadId = Some ''7'', app = None\<rparr>]
   \<and> (\<exists>j. (\<exists>n. \<lparr>sms_id = ''7_1700000123456'', sender = ''Bank'', body = ''Code 482913'',
                   timestamp = ''2023-11-14T22:15:23.457Z'', threadId = Some ''7'', app = None\<rparr>
                  = stream_sms (\<lambda>k. 1700000123456 + int k) j n)
            \<or> (\<exists>p. \<lparr>sms_id = ''7_1700000123456'', sender = ''Bank'', body = ''Code 482913'',
                   timestamp = ''2023-11-14T22:15:23.457Z'', threadId = Some ''7'', app = None\<rparr>
                  = mirror_sms (\<lambda>k. 1700000123456 + int k) j p))"
proof -
  let ?n = "bank_notification ''Code 482913''"
  let ?push = "sms_changed_push [?n]"
  let ?old = "message ''m1'' ''Mom'' ''Dinner at 8'' ''2023-11-14T20:00:00.000Z''"
  let ?polled = "\<lparr>sms_id = ''7_1700000000'', sender = ''Bank'', body = ''Code 482913'',
          timestamp = ''2023-11-14T22:13:20.000Z'', threadId = Some ''7'', app = None\<rparr>"
  let ?streamed = "\<lparr>sms_id = ''7_1700000123456'', sender = ''Bank'', body = ''Code 482913'',
          timestamp = ''2023-11-14T22:15:23.457Z'', threadId = Some ''7'', app = None\<rparr>"
  let ?clock = "\<lambda>k::nat. 1700000123456 + int k"
  note inst = poll_timestamps_are_modified_times_1000
                [where pushes = "[?push]" and store = "[?old]" and clock = ?clock
                   and msg = "push_frame ?push" and store' = "[]"
                   and ?p1.0 = ?push and ?n1.0 = ?n and ?store1.0 = "[?old]"]
  have a: "fetchRecentPushes (Some [?push]) [?old] = [?polled, ?old]" by code_simp
  have c: "fst (handlePushbulletMessage ?clock (push_frame ?push) []) = [?streamed]"
    by code_simp
  have h1: "push_type ?push = ''sms_changed''" by (simp add: sms_changed_push_def)
  have h2: "notifications ?push = Some [?n]" by (simp add: sms_changed_push_def)
  have h3: "\<not> has_id (thread_id ?n @ ''_'' @ show_int (modified ?push)) [?old]" by code_simp
  have h4: "valid_time (modified ?push * 1000)" by code_simp
  have "\<forall>s \<in> set (fetchRecentPushes (Some [?push]) [?old]).
      s \<in> set [?old]
      \<or> (\<exists>p \<in> set [?push]. \<exists>ns. push_type p = ''sms_changed'' \<and> notifications p = Some ns
            \<and> (\<exists>n \<in> set ns. s = poll_sms (modified p) n))"
    by (rule conjunct1 [OF inst])
  then have "?polled \<in> set [?old]
      \<or> (\<exists>p \<in> set [?push]. \<exists>ns. push_type p = ''sms_changed'' \<and> notifications p = Some ns
            \<and> (\<exists>n \<in> set ns. ?polled = poll_sms (modified p) n))"
    unfolding a by (rule bspec) (rule list.set_intros(1))
  moreover have "?polled \<notin> set [?old]" by (simp add: message_def)
  ultimately have b: "\<exists>p \<in> set [?push]. \<exists>ns. push_type p = ''sms_changed''
      \<and> notifications p = Some ns \<and> (\<exists>n \<in> set ns. ?polled = poll_sms (modified p) n)"
    by blast
  have "push_type ?push = ''sms_changed'' \<and> notifications ?push = Some [?n]
        \<and> \<not> has_id (thread_id ?n @ ''_'' @ show_int (modified ?push)) [?old]
        \<and> valid_time (modified ?push * 1000) \<longrightarrow>
        fetchRecentPushes (Some [?push]) [?old] = addSmsMessage (poll_sms (modified ?push) ?n) [?old]"
    by (rule conjunct1 [OF conjunct2 [OF conjunct2 [OF conjunct2 [OF inst]]]])
  with h1 h2 h3 h4
  have s: "fetchRecentPushes (Some [?push]) [?old] = addSmsMessage (poll_sms (modified ?push) ?n) [?old]"
    by blast
  have "\<forall>s \<in> set (fst (handlePushbulletMessage ?clock (push_frame ?push) [])).
        s \<in> set []
        \<or> (\<exists>j. (\<exists>n. s = stream_sms ?clock j n) \<or> (\<exists>p. s = mirror_sms ?clock j p))"
    by (rule conjunct1 [OF conjunct2 [OF conjunct2 [OF conjunct2 [OF conjunct2 [OF inst]]]]])
  then have "?streamed \<in> set []
      \<or> (\<exists>j. (\<exists>n. ?streamed = stream_sms ?clock j n) \<or> (\<exists>p. ?streamed = mirror_sms ?clock j p))"
    unfolding c by (rule bspec) (rule list.set_intros(1))
  then have d: "\<exists>j. (\<exists>n. ?streamed = stream_sms ?clock j n)
      \<or> (\<exists>p. ?streamed = mirror_sms ?clock j p)"
    by (simp only: list.set empty_iff simp_thms)
  show ?thesis by (intro conjI a b h1 h2 h3 h4 s c d)
qed

text \<open>
  C8 as stated fails on the stream channel: the same frame, whose push carries
  \<^verbatim>\<open>modified\<close> = 1700000000, is stored under the local time of its arrival, a
  different timestamp at a different arrival time, and not under 1700000000 times 1000.
\<close>

theorem stream_timestamp_is_local_clock:
  "map timestamp
     (fst (handlePushbulletMessage (\<lambda>k. 1700000123456)
            (push_frame (sms_changed_push [bank_notification ''Code 482913''])) []))
     = [''2023-11-14T22:15:23.456Z'']
   \<and> map timestamp
     (fst (handlePushbulletMessage (\<lambda>k. 1700000999000)
            (push_frame (sms_changed_push [bank_notification ''Code 482913''])) []))
     = [''2023-11-14T22:29:59.000Z'']
   \<and> Date_toISOString (modified (sms_changed_push [bank_notification ''Code 482913'']) * 1000)
     = ''2023-11-14T22:13:20.000Z''
   \<and> map timestamp
     (fst (handlePushbulletMessage (\<lambda>k. 1700000123456)
            (push_frame (sms_changed_push [bank_notification ''Code 482913''])) []))
     \<noteq> [Date_toISOString (modified (sms_changed_push [bank_notification ''Code 482913'']) * 1000)]"
  by code_simp

subsection \<open>Identifiers and the bound of the store\<close>

lemma poll_notifications_stored_id:
  "has_id (thread_id n @ ''_'' @ show_int modif) store \<Longrightarrow>
     poll_notifications modif [n] store = (store, True)"
  by simp

lemma merge_messages_stored_id: "has_id (sms_id m) store \<Longrightarrow> merge_messages [m] store = store"
  by simp


lemma step_single_notification:
  "step store (StreamFrame clock (push_frame (sms_changed_push [n]))) =
     addSmsMessage (stream_sms clock 0 n) store"
  by (simp add: handlePushbulletMessage_def push_frame_def sms_changed_push_def)

lemma stream_frames_fill_store:
  assumes "list_all (\<lambda>s. take 2 (sms_id s) = ''7_'') store"
    and "length store \<le> MAX_STORED_MESSAGES"
  shows "length (foldl step store
                  (map (\<lambda>i. StreamFrame (c i) (push_frame (sms_changed_push [bank_notification b]))) xs))
           = min MAX_STORED_MESSAGES (length store + length xs)
         \<and> list_all (\<lambda>s. take 2 (sms_id s) = ''7_'')
             (foldl step store
                (map (\<lambda>i. StreamFrame (c i) (push_frame (sms_changed_push [bank_notification b]))) xs))"
  using assms
proof (induction xs arbitrary: store)
  case Nil
  then show ?case by simp
next
  case (Cons x xs)
  let ?s = "stream_sms (c x) 0 (bank_notification b)"
  have id: "take 2 (sms_id ?s) = ''7_''"
    by (simp add: stream_sms_def bank_notification_def)
  have "set (addSmsMessage ?s store) \<subseteq> insert ?s (set store)" by (rule set_addSmsMessage)
  with id Cons.prems have inv: "list_all (\<lambda>s. take 2 (sms_id s) = ''7_'') (addSmsMessage ?s store)"
    by (auto simp: list_all_iff)
  have len: "length (addSmsMessage ?s store) \<le> MAX_STORED_MESSAGES"
    by (simp add: length_addSmsMessage)
  from Cons.IH [OF inv len] Cons.prems(2) show ?case
    by (simp add: step_single_notification length_addSmsMessage min_def del: step.simps)
qed

text \<open>
  C1: the stream path inserts without looking at the identifiers. A frame with two
  notifications of thread \<^verbatim>\<open>7\<close>, handled within one millisecond, leaves two stored
  messages under the identifier \<^verbatim>\<open>7_1700000000000\<close>; the same push taken through the
  poll path is stored once.
\<close>

theorem stream_stores_one_id_twice:
  "map sms_id
     (run [StreamFrame (\<lambda>k. 1700000000000)
             (push_frame (sms_changed_push
                [bank_notification ''Code 111111'', bank_notification ''Code 222222'']))])
     = [''7_1700000000000'', ''7_1700000000000'']
   \<and> map body
     (run [StreamFrame (\<lambda>k. 1700000000000)
             (push_frame (sms_changed_push
                [bank_notification ''Code 111111'', bank_notification ''Code 222222'']))])
     = [''Code 222222'', ''Code 111111'']
   \<and> map sms_id
     (run [PollResponse (Some [sms_changed_push
                [bank_notification ''Code 111111'', bank_notification ''Code 222222'']])])
     = [''7_1700000000'']"
  by code_simp

text \<open>
  C2: the merge of \<^verbatim>\<open>fetch_sms_threads\<close> appends without the eviction loop. After 100
  messages from the stream, a call that fetches one new thread leaves 101 messages
  stored, one more than \<^verbatim>\<open>MAX_STORED_MESSAGES\<close>.
\<close>

theorem fetch_sms_threads_exceeds_max:
  "length (run (map (\<lambda>i. StreamFrame (\<lambda>k. 1700000000000 + i)
                        (push_frame (sms_changed_push [bank_notification ''Code 482913''])))
                 (map int [0..<100])))
     = 100
   \<and> length (run (map (\<lambda>i. StreamFrame (\<lambda>k. 1700000000000 + i)
                        (push_frame (sms_changed_push [bank_notification ''Code 482913''])))
                 (map int [0..<100])
               @ [FetchThreads None (Some [snapshot_thread ''T1'' ''Hello''])]))
     = 101
   \<and> MAX_STORED_MESSAGES = 100"
proof -
  let ?frames = "map (\<lambda>i. StreamFrame (\<lambda>k. 1700000000000 + i)
                        (push_frame (sms_changed_push [bank_notification ''Code 482913''])))
                 (map int [0..<100])"
  have n: "length (run ?frames) = 100"
    using stream_frames_fill_store [of "[]" "\<lambda>i k. 1700000000000 + i" "''Code 482913''" "map int [0..<100]"]
    by (simp add: run_def MAX_STORED_MESSAGES_def)
  have ids: "list_all (\<lambda>s. take 2 (sms_id s) = ''7_'') (run ?frames)"
    using stream_frames_fill_store [of "[]" "\<lambda>i k. 1700000000000 + i" "''Code 482913''" "map int [0..<100]"]
    by (simp add: run_def)
  have "\<not> has_id ''T1'' (run ?frames)"
  proof
    assume "has_id ''T1'' (run ?frames)"
    then obtain s where "s \<in> set (run ?frames)" "sms_id s = ''T1''"
      by (auto simp: has_id_iff)
    with ids show False by (auto simp: list_all_iff)
  qed
  moreover have "map sms_id (fetchSmsFromApi (Some [snapshot_thread ''T1'' ''Hello'']) (number_or None 20))
      = [''T1'']" by code_simp
  ultimately have "length (fetch_sms_threads None (Some [snapshot_thread ''T1'' ''Hello'']) (run ?frames))
      = Suc (length (run ?frames))"
    by (auto simp: fetch_sms_threads_def Let_def map_eq_Cons_conv)
  with n have "length (run (?frames @ [FetchThreads None (Some [snapshot_thread ''T1'' ''Hello''])])) = 101"
    by (simp add: run_def)
  with n show ?thesis by (simp add: MAX_STORED_MESSAGES_def)
qed

subsection \<open>The polling scan\<close>

lemma scan_indices_beyond_store:
  assumes "\<forall>s \<in> set store. \<not> accepts filt s" and "k \<le> length store" and "length store < n"
  shows "scan_indices getTime filt startTime store [k ..< n] = Inl TypeError"
  using assms
proof (induction "length store - k" arbitrary: k)
  case 0
  then have "k = length store" by simp
  moreover from this 0 have "[k ..< n] = k # [Suc k ..< n]" by (simp add: upt_conv_Cons)
  ultimately show ?case by simp
next
  case (Suc d)
  then have lt: "k < length store" by simp
  with Suc.prems have "[k ..< n] = k # [Suc k ..< n]" by (simp add: upt_conv_Cons)
  moreover from lt Suc.prems(1) have "\<not> accepts filt (store ! k)" by simp
  moreover have "scan_indices getTime filt startTime store [Suc k ..< n] = Inl TypeError"
    using Suc.hyps(1) [of "Suc k"] Suc.hyps(2) Suc.prems lt by simp
  ultimately show ?case using lt by simp
qed

lemma waitForSms_small_store_TypeError:
  assumes "find (accepts filt) store = None" and "length store < 5"
    and "now - startTime < timeoutMs"
  shows "waitForSms getTime filt timeoutMs startTime store ((now, store) # ticks)
           = Some (Inl TypeError)"
proof -
  from assms(1) have none: "\<forall>s \<in> set store. \<not> accepts filt s"
    by (simp add: find_None_iff)
  have "scan_new getTime filt startTime (length store) store = Inl TypeError"
    using scan_indices_beyond_store [OF none, of 0 5] assms(2) by (simp add: scan_new_def)
  with assms show ?thesis by (simp add: waitForSms_def)
qed

text \<open>
  C4: a wait on a store of fewer than five messages does not end in \<^verbatim>\<open>null\<close>. With
  an empty store, no filter and a timeout of 2000 ms, nothing is inserted; the first
  poll reads \<^verbatim>\<open>smsMessages[0]\<close>, which is \<^verbatim>\<open>undefined\<close>, and the promise is rejected
  with a \<^verbatim>\<open>TypeError\<close>. The same happens with a filter and two stored messages that
  do not satisfy it.
\<close>

theorem waitForSms_small_store_raises:
  "waitForSms getTime None 2000 1700000000000 []
     [(1700000000000, []), (1700000001001, []), (1700000002002, [])]
     = Some (Inl TypeError)
   \<and> find (accepts (Some from_bank)) (take 2 five_from_mom) = None
   \<and> waitForSms getTime (Some from_bank) 2000 1700000000000 (take 2 five_from_mom)
     [(1700000000000, take 2 five_from_mom), (1700000001001, take 2 five_from_mom),
      (1700000002002, take 2 five_from_mom)]
     = Some (Inl TypeError)"
  by code_simp

lemma find_first_match:
  "find P xs = Some x \<Longrightarrow> \<exists>i < length xs. xs ! i = x \<and> P x \<and> (\<forall>j < i. \<not> P (xs ! j))"
  by (auto simp: find_Some_iff)

lemma waitForSms_stored_match:
  "find (accepts filt) store = Some s \<Longrightarrow>
     waitForSms getTime filt timeoutMs startTime store ticks = Some (Inr (Some s))"
  by (simp add: waitForSms_def)

text \<open>
  C5: the first scan of the store returns the first stored message for the filter,
  whatever happens later (lemma \<open>waitForSms_stored_match\<close>). The second half of the claim
  fails. With six stored messages from another sender, a fresh message of the bank
  that \<^verbatim>\<open>fetch_sms_threads\<close> merges during the wait stands at index 6, the polling scan
  reads the indices 0 to 5 only, and the wait ends in \<^verbatim>\<open>null\<close> at the timeout. With one
  stored message, the first poll is rejected with a \<^verbatim>\<open>TypeError\<close> before a fresh message
  of the bank arrives a second and a half into the wait.
\<close>

theorem waitForSms_misses_inserted_message:
  "accepts (Some from_bank) (message ''T9'' ''Bank'' ''Code 482913'' ''2023-11-14T22:13:20.500Z'')
   \<and> is_new Date_parse_iso 1700000000000
        (message ''T9'' ''Bank'' ''Code 482913'' ''2023-11-14T22:13:20.500Z'')
   \<and> merge_messages [message ''T9'' ''Bank'' ''Code 482913'' ''2023-11-14T22:13:20.500Z'']
        (message ''m0'' ''Mom'' ''Lunch?'' ''2023-11-14T22:00:00.000Z'' # five_from_mom)
      = (message ''m0'' ''Mom'' ''Lunch?'' ''2023-11-14T22:00:00.000Z'' # five_from_mom)
          @ [message ''T9'' ''Bank'' ''Code 482913'' ''2023-11-14T22:13:20.500Z'']
   \<and> waitForSms Date_parse_iso (Some from_bank) 2000 1700000000000
        (message ''m0'' ''Mom'' ''Lunch?'' ''2023-11-14T22:00:00.000Z'' # five_from_mom)
        [(1700000000000,
          merge_messages [message ''T9'' ''Bank'' ''Code 482913'' ''2023-11-14T22:13:20.500Z'']
            (message ''m0'' ''Mom'' ''Lunch?'' ''2023-11-14T22:00:00.000Z'' # five_from_mom)),
         (1700000001001,
          merge_messages [message ''T9'' ''Bank'' ''Code 482913'' ''2023-11-14T22:13:20.500Z'']
            (message ''m0'' ''Mom'' ''Lunch?'' ''2023-11-14T22:00:00.000Z'' # five_from_mom)),
         (1700000002002,
          merge_messages [message ''T9'' ''Bank'' ''Code 482913'' ''2023-11-14T22:13:20.500Z'']
            (message ''m0'' ''Mom'' ''Lunch?'' ''2023-11-14T22:00:00.000Z'' # five_from_mom))]
      = Some (Inr None)
   \<and> waitForSms Date_parse_iso (Some from_bank) 60000 1700000000000 (take 1 five_from_mom)
        [(1700000000000, take 1 five_from_mom),
         (1700000001001,
          addSmsMessage (message ''7_1700000001500'' ''Bank'' ''Code 482913''
                           ''2023-11-14T22:13:21.500Z'') (take 1 five_from_mom))]
      = Some (Inl TypeError)"
  by code_simp

end
